theory Spec2Isabelle
  imports Main
begin

section \<open>Python values, exceptions and the object store\<close>

text \<open>
  An instance of \<open>error.Error\<close> (module \<open>error.py\<close>): the fields its constructor sets.
\<close>

record error =
  http_code :: int
  error_code :: "int option"
  message :: "string option"
  short_name :: "string option"
  reraise :: bool

text \<open>
  The program is Python. Exceptions are values of \<open>exn\<close>; a function that may raise
  returns \<open>exn + 'a\<close> with \<open>Inl\<close> for the exception. \<open>Error\<close> is an instance of
  \<open>error.Error\<close> or of one of its subclasses. \<open>Dangling\<close> is no Python exception: it is
  the model's answer on a store that holds a reference to no object, which no run of
  the program produces. A function that raises leaves no store behind in the model.
\<close>

datatype exn =
    TypeError | KeyError | AttributeError | IndexError | ValueError
  | UnboundLocalError | Error error | Dangling

type_synonym addr = nat

text \<open>
  The values a context slot can hold: \<open>None\<close>, integers, strings, references to context
  objects, lists and plain dicts (insertion-ordered, with string keys). Strings are
  HOL strings: sequences of characters with code points below 256.

  A list is modelled as a value, not as an object of the store: the only in-place
  list mutation of the program is the \<open>append\<close> in \<open>save\<close>, on a list that is never
  shared between two objects (every constructor and \<open>rollback\<close> store a fresh
  \<open>list(...)\<close> copy).
\<close>

datatype pyval =
    VNone
  | VInt int
  | VStr string
  | VRef addr
  | VList "pyval list"
  | VMap "(string \<times> pyval) list"

text \<open>The three classes of \<open>dictionary.py\<close>; each extends the one before.\<close>

datatype klass = AspyreDictImmutable | AspyreDict | AspyreDictHistory

text \<open>
  An object is its class and its \<open>__dict__\<close>, an insertion-ordered dict. The reserved
  history slot is the entry of \<open>__dict__\<close> under the key \<open>'__history'\<close>, as in the source.
\<close>

record pyobj =
  ob_class :: klass
  ob_dict :: "(string \<times> pyval) list"

type_synonym heap = "pyobj list"

definition deref :: "heap \<Rightarrow> addr \<Rightarrow> exn + pyobj" where
  "deref h a = (if a < length h then Inr (h ! a) else Inl Dangling)"

subsection \<open>Insertion-ordered dicts\<close>

fun dict_set :: "(string \<times> 'v) list \<Rightarrow> string \<Rightarrow> 'v \<Rightarrow> (string \<times> 'v) list" where
  "dict_set [] k v = [(k, v)]"
| "dict_set ((k', v') # d) k v =
     (if k' = k then (k', v) # d else (k', v') # dict_set d k v)"

definition dict_del :: "(string \<times> 'v) list \<Rightarrow> string \<Rightarrow> (string \<times> 'v) list" where
  "dict_del d k = filter (\<lambda>kv. fst kv \<noteq> k) d"

definition dict_update :: "(string \<times> 'v) list \<Rightarrow> (string \<times> 'v) list \<Rightarrow> (string \<times> 'v) list" where
  "dict_update d e = fold (\<lambda>kv acc. dict_set acc (fst kv) (snd kv)) e d"

definition dict_getitem :: "(string \<times> 'v) list \<Rightarrow> string \<Rightarrow> exn + 'v" where
  "dict_getitem d k = (case map_of d k of None \<Rightarrow> Inl KeyError | Some v \<Rightarrow> Inr v)"

text \<open>
  \<open>xs[i]\<close> on a list: an index from \<open>-len(xs)\<close> up to \<open>-1\<close> addresses the list from
  its end, and an index outside \<open>-len(xs) .. len(xs) - 1\<close> raises.
\<close>

definition list_getitem :: "'a list \<Rightarrow> int \<Rightarrow> exn + 'a" where
  "list_getitem xs i =
     (if 0 \<le> i \<and> i < int (length xs) then Inr (xs ! nat i)
      else if - int (length xs) \<le> i \<and> i < 0 then Inr (xs ! nat (int (length xs) + i))
      else Inl IndexError)"

subsection \<open>Strings\<close>

definition ascii_lowercase :: string where
  "ascii_lowercase = ''abcdefghijklmnopqrstuvwxyz''"

text \<open>\<open>str.lower\<close> on one character with a code point below 256.\<close>

definition lower_char :: "char \<Rightarrow> char" where
  "lower_char c =
     (let n = (of_char c :: nat)
      in if (65 \<le> n \<and> n \<le> 90) \<or> (192 \<le> n \<and> n \<le> 222 \<and> n \<noteq> 215)
         then char_of (n + 32) else c)"

definition lower :: "string \<Rightarrow> string" where
  "lower s = map lower_char s"

text \<open>
  \<open>''.join(char for char in str(key).lower() if char in string.ascii_lowercase)\<close>
\<close>

definition key_f :: "string \<Rightarrow> string" where
  "key_f key = filter (\<lambda>c. c \<in> set ascii_lowercase) (lower key)"

definition history_key :: string where
  "history_key = ''__history''"

section \<open>The context classes (dictionary.py)\<close>

subsection \<open>Key lookup\<close>

text \<open>
  \<open>AspyreDictImmutable.__find_key__\<close>: the first key of \<open>__dict__\<close> whose
  normal form is the normal form of the argument.
\<close>

definition find_key_Immutable :: "(string \<times> pyval) list \<Rightarrow> string \<Rightarrow> bool \<times> string" where
  "find_key_Immutable d key =
     (case find (\<lambda>cls_key. key_f key = key_f cls_key) (map fst d) of
        Some cls_key \<Rightarrow> (True, cls_key)
      | None \<Rightarrow> (False, key))"

text \<open>
  \<open>AspyreDictHistory.__find_key__\<close>: skips the history slot and compares the normal
  form of the argument with the stored key as it is.
\<close>

definition find_key_History :: "(string \<times> pyval) list \<Rightarrow> string \<Rightarrow> bool \<times> string" where
  "find_key_History d key =
     (case find (\<lambda>cls_key. cls_key \<noteq> history_key \<and> key_f key = cls_key) (map fst d) of
        Some cls_key \<Rightarrow> (True, cls_key)
      | None \<Rightarrow> (False, key))"

text \<open>\<open>self.__class__.__find_key__(self, key)\<close>: dispatch on the class of the receiver.\<close>

definition find_key :: "klass \<Rightarrow> (string \<times> pyval) list \<Rightarrow> string \<Rightarrow> bool \<times> string" where
  "find_key c d key =
     (case c of
        AspyreDictHistory \<Rightarrow> find_key_History d key
      | _ \<Rightarrow> find_key_Immutable d key)"

subsection \<open>Item access\<close>

text \<open>\<open>AspyreDictImmutable.__getitem__\<close>, inherited by \<open>AspyreDict\<close>.\<close>

definition getitem_Immutable :: "pyobj \<Rightarrow> string \<Rightarrow> exn + pyval" where
  "getitem_Immutable ob key =
     (let (found, key') = find_key (ob_class ob) (ob_dict ob) key
      in if found then dict_getitem (ob_dict ob) key' else Inr VNone)"

text \<open>
  \<open>context[key]\<close>: \<open>AspyreDictHistory.__getitem__\<close> answers \<open>None\<close> for the history
  slot and calls the inherited method otherwise.
\<close>

definition getitem :: "pyobj \<Rightarrow> string \<Rightarrow> exn + pyval" where
  "getitem ob key =
     (if ob_class ob = AspyreDictHistory \<and> lower key = history_key then Inr VNone
      else getitem_Immutable ob key)"

subsection \<open>Construction\<close>

text \<open>
  \<open>list(x)\<close> for the values of the model. Iterating a context object yields the
  keys of its \<open>__dict__\<close> (\<open>__iter__\<close>).
\<close>

definition py_list :: "heap \<Rightarrow> pyval \<Rightarrow> exn + pyval list" where
  "py_list h x =
     (case x of
        VList l \<Rightarrow> Inr l
      | VStr s \<Rightarrow> Inr (map (\<lambda>c. VStr [c]) s)
      | VMap m \<Rightarrow> Inr (map (\<lambda>kv. VStr (fst kv)) m)
      | VRef r \<Rightarrow> (case deref h r of
                     Inl e \<Rightarrow> Inl e
                   | Inr ob \<Rightarrow> Inr (map (\<lambda>kv. VStr (fst kv)) (ob_dict ob)))
      | _ \<Rightarrow> Inl TypeError)"

text \<open>
  \<open>AspyreDictImmutable.__init__(self, old_dict)\<close> on the \<open>__dict__\<close> of the new
  object. Every object of the store is an instance of \<open>AspyreDictImmutable\<close>.
\<close>

definition init_Immutable :: "heap \<Rightarrow> (string \<times> pyval) list \<Rightarrow> pyval \<Rightarrow> exn + (string \<times> pyval) list" where
  "init_Immutable h d old_dict =
     (case old_dict of
        VRef r \<Rightarrow> (case deref h r of
                     Inl e \<Rightarrow> Inl e
                   | Inr old \<Rightarrow> Inr (dict_del (dict_update d (ob_dict old)) history_key))
      | VMap m \<Rightarrow> Inr (dict_update d m)
      | VNone \<Rightarrow> Inr (dict_set d history_key (VList []))
      | _ \<Rightarrow> Inl TypeError)"

text \<open>
  \<open>AspyreDictHistory.__init__(self, old_dict)\<close>, after the inherited constructor;
  \<open>self\<close> is the address of the new object.
\<close>

definition init_History :: "heap \<Rightarrow> addr \<Rightarrow> (string \<times> pyval) list \<Rightarrow> pyval \<Rightarrow> exn + (string \<times> pyval) list" where
  "init_History h self d old_dict =
     (let own = Inr (dict_set d history_key (VList [VRef self]))
      in case old_dict of
        VRef r \<Rightarrow>
          (case deref h r of
             Inl e \<Rightarrow> Inl e
           | Inr old \<Rightarrow>
               if ob_class old = AspyreDictHistory then
                 (case dict_getitem (ob_dict old) history_key of
                    Inl e \<Rightarrow> Inl e
                  | Inr hv \<Rightarrow> (case py_list h hv of
                                Inl e \<Rightarrow> Inl e
                              | Inr l \<Rightarrow> Inr (dict_set d history_key (VList l))))
               else own)
      | _ \<Rightarrow> own)"

text \<open>
  \<open>c(old_dict)\<close>: a new object of class \<open>c\<close> at the next free address, initialised
  by the constructor of its class.
\<close>

definition new :: "heap \<Rightarrow> klass \<Rightarrow> pyval \<Rightarrow> exn + (heap \<times> addr)" where
  "new h c old_dict =
     (let self = length h
      in case init_Immutable h [] old_dict of
           Inl e \<Rightarrow> Inl e
         | Inr d \<Rightarrow>
             if c = AspyreDictHistory then
               (case init_History h self d old_dict of
                  Inl e \<Rightarrow> Inl e
                | Inr d' \<Rightarrow> Inr (h @ [\<lparr>ob_class = c, ob_dict = d'\<rparr>], self))
             else Inr (h @ [\<lparr>ob_class = c, ob_dict = d\<rparr>], self))"

subsection \<open>Assignment and deletion\<close>

definition set_dict :: "heap \<Rightarrow> addr \<Rightarrow> (string \<times> pyval) list \<Rightarrow> heap" where
  "set_dict h a d = h[a := (h ! a)\<lparr>ob_dict := d\<rparr>]"

text \<open>
  \<open>AspyreDict.__setitem__\<close>: the key comes from \<open>super().__find_key__\<close>, which is
  \<open>AspyreDictImmutable.__find_key__\<close> whatever the class of the receiver; a plain
  dict is wrapped in a new object of the receiver's class.
\<close>

definition setitem_AspyreDict :: "heap \<Rightarrow> addr \<Rightarrow> string \<Rightarrow> pyval \<Rightarrow> exn + heap" where
  "setitem_AspyreDict h a key v =
     (case deref h a of
        Inl e \<Rightarrow> Inl e
      | Inr ob \<Rightarrow>
          (let key' = snd (find_key_Immutable (ob_dict ob) key)
           in case v of
                VMap m \<Rightarrow>
                  (case new h (ob_class ob) (VMap m) of
                     Inl e \<Rightarrow> Inl e
                   | Inr (h', r) \<Rightarrow> Inr (set_dict h' a (dict_set (ob_dict ob) key' (VRef r))))
              | _ \<Rightarrow> Inr (set_dict h a (dict_set (ob_dict ob) key' v))))"

text \<open>\<open>context[key] = v\<close>, by the class of the receiver.\<close>

definition setitem :: "heap \<Rightarrow> addr \<Rightarrow> string \<Rightarrow> pyval \<Rightarrow> exn + heap" where
  "setitem h a key v =
     (case deref h a of
        Inl e \<Rightarrow> Inl e
      | Inr ob \<Rightarrow>
          (case ob_class ob of
             AspyreDictImmutable \<Rightarrow> Inl TypeError
           | AspyreDict \<Rightarrow> setitem_AspyreDict h a key v
           | AspyreDictHistory \<Rightarrow>
               if lower key = history_key then Inl AttributeError
               else setitem_AspyreDict h a key v))"

text \<open>\<open>AspyreDict.__delitem__\<close>.\<close>

definition delitem_AspyreDict :: "heap \<Rightarrow> addr \<Rightarrow> string \<Rightarrow> exn + heap" where
  "delitem_AspyreDict h a key =
     (case deref h a of
        Inl e \<Rightarrow> Inl e
      | Inr ob \<Rightarrow>
          (let (found, key') = find_key_Immutable (ob_dict ob) key
           in if found then Inr (set_dict h a (dict_del (ob_dict ob) key')) else Inr h))"

text \<open>\<open>del context[key]\<close>, by the class of the receiver.\<close>

definition delitem :: "heap \<Rightarrow> addr \<Rightarrow> string \<Rightarrow> exn + heap" where
  "delitem h a key =
     (case deref h a of
        Inl e \<Rightarrow> Inl e
      | Inr ob \<Rightarrow>
          (case ob_class ob of
             AspyreDictImmutable \<Rightarrow> Inl TypeError
           | AspyreDict \<Rightarrow> delitem_AspyreDict h a key
           | AspyreDictHistory \<Rightarrow>
               if lower key = history_key then Inl AttributeError
               else delitem_AspyreDict h a key))"

subsection \<open>Versions\<close>

text \<open>\<open>len(x)\<close> for the values of the model; \<open>len\<close> of a context is \<open>len(self.__dict__)\<close>.\<close>

definition py_len :: "heap \<Rightarrow> pyval \<Rightarrow> exn + int" where
  "py_len h x =
     (case x of
        VList l \<Rightarrow> Inr (int (length l))
      | VStr s \<Rightarrow> Inr (int (length s))
      | VMap m \<Rightarrow> Inr (int (length m))
      | VRef r \<Rightarrow> (case deref h r of
                     Inl e \<Rightarrow> Inl e
                   | Inr ob \<Rightarrow> Inr (int (length (ob_dict ob))))
      | _ \<Rightarrow> Inl TypeError)"

text \<open>
  The functions below are the method calls \<open>ctx.get_current_version()\<close>, \<open>ctx.save()\<close>
  and \<open>ctx.rollback(version)\<close>. The methods are defined by \<open>AspyreDictHistory\<close> only. On
  a receiver of another class the attribute lookup ends in the entries of the context
  (\<open>__getattr__\<close>, an item lookup), and calling its result raises \<open>TypeError\<close>, no value
  of the model being callable.

  The entries of a context are the entries of the \<open>__dict__\<close> of the instance, and the
  lookup of an attribute on an instance finds an entry of its \<open>__dict__\<close> before a
  function of its class. An entry whose key is the name of a method hides the method
  from the call, which then calls the value of the entry: \<open>TypeError\<close>. (\<open>__dict__\<close> and
  \<open>__class__\<close> are data descriptors of the type and cannot be hidden, and \<open>ctx[key]\<close>,
  \<open>ctx[key] = v\<close> and \<open>del ctx[key]\<close> look their methods up on the type.)
\<close>

definition method_hidden :: "pyobj \<Rightarrow> string \<Rightarrow> bool" where
  "method_hidden ob name = (map_of (ob_dict ob) name \<noteq> None)"

text \<open>\<open>get_current_version()\<close>: \<open>len(self.__dict__['__history'])\<close>.\<close>

definition get_current_version :: "heap \<Rightarrow> addr \<Rightarrow> exn + int" where
  "get_current_version h a =
     (case deref h a of
        Inl e \<Rightarrow> Inl e
      | Inr ob \<Rightarrow>
          if ob_class ob \<noteq> AspyreDictHistory then Inl TypeError
          else if method_hidden ob ''get_current_version'' then Inl TypeError
          else (case dict_getitem (ob_dict ob) history_key of
                  Inl e \<Rightarrow> Inl e
                | Inr hv \<Rightarrow> py_len h hv))"

text \<open>
  \<open>save()\<close>: \<open>self.__dict__['__history'].append(self.__class__(self))\<close>, then
  \<open>return self.get_current_version()\<close>. The history list is looked up first, then the copy is
  constructed (from the list as it is before the append), then appended. A history
  slot that holds no list has no \<open>append\<close>: \<open>AttributeError\<close>, or \<open>TypeError\<close> from the
  call when the slot holds a context.
\<close>

definition save :: "heap \<Rightarrow> addr \<Rightarrow> exn + (heap \<times> int)" where
  "save h a =
     (case deref h a of
        Inl e \<Rightarrow> Inl e
      | Inr ob \<Rightarrow>
          if ob_class ob \<noteq> AspyreDictHistory then Inl TypeError
          else if method_hidden ob ''save'' then Inl TypeError
          else (case dict_getitem (ob_dict ob) history_key of
                  Inl e \<Rightarrow> Inl e
                | Inr (VList l) \<Rightarrow>
                    (case new h (ob_class ob) (VRef a) of
                       Inl e \<Rightarrow> Inl e
                     | Inr (h1, s) \<Rightarrow>
                         (let h2 = set_dict h1 a
                                     (dict_set (ob_dict ob) history_key (VList (l @ [VRef s])))
                          in case get_current_version h2 a of
                               Inl e \<Rightarrow> Inl e
                             | Inr n \<Rightarrow> Inr (h2, n)))
                | Inr (VRef r) \<Rightarrow> Inl TypeError
                | Inr _ \<Rightarrow> Inl AttributeError))"

text \<open>
  \<open>x[version]\<close> for the values of the model. A plain dict of the model has string keys
  only. On a context, \<open>AspyreDictHistory.__getitem__\<close> calls \<open>key.lower()\<close> on the integer;
  the inherited \<open>__getitem__\<close> looks up \<open>str(version)\<close>, which holds no letter, so that its
  normal form is the empty string.
\<close>

definition subscript :: "heap \<Rightarrow> pyval \<Rightarrow> int \<Rightarrow> exn + pyval" where
  "subscript h x i =
     (case x of
        VList l \<Rightarrow> list_getitem l i
      | VStr s \<Rightarrow> (case list_getitem s i of Inl e \<Rightarrow> Inl e | Inr c \<Rightarrow> Inr (VStr [c]))
      | VMap m \<Rightarrow> Inl KeyError
      | VRef r \<Rightarrow> (case deref h r of
                     Inl e \<Rightarrow> Inl e
                   | Inr ob \<Rightarrow> if ob_class ob = AspyreDictHistory then Inl AttributeError
                              else getitem_Immutable ob [])
      | _ \<Rightarrow> Inl TypeError)"

text \<open>
  \<open>rollback(version)\<close>, statement by statement; every read is from the store as the
  statements before it left it, so that a snapshot that is the receiver itself behaves
  as in Python. Only an object has a \<open>__dict__\<close>.
\<close>

definition rollback :: "heap \<Rightarrow> addr \<Rightarrow> int \<Rightarrow> exn + heap" where
  "rollback h a version =
     (case deref h a of
        Inl e \<Rightarrow> Inl e
      | Inr ob \<Rightarrow>
          if ob_class ob \<noteq> AspyreDictHistory then Inl TypeError
          else if method_hidden ob ''rollback'' then Inl TypeError
          else (case dict_getitem (ob_dict ob) history_key of
                  Inl e \<Rightarrow> Inl e
                | Inr hv \<Rightarrow>
                    (case subscript h hv version of
                       Inl e \<Rightarrow> Inl e
                     | Inr (VRef s) \<Rightarrow>
                         (case deref h s of
                            Inl e \<Rightarrow> Inl e
                          | Inr state \<Rightarrow>
                              (case dict_getitem (ob_dict state) history_key of
                                 Inl e \<Rightarrow> Inl e
                               | Inr history \<Rightarrow>
                                   (let h1 = set_dict h s (dict_del (ob_dict state) history_key);
                                        h2 = set_dict h1 a [];
                                        h3 = set_dict h2 a
                                               (dict_update (ob_dict (h2 ! a)) (ob_dict (h2 ! s)))
                                    in case py_list h3 history of
                                         Inl e \<Rightarrow> Inl e
                                       | Inr l \<Rightarrow>
                                           Inr (set_dict h3 a
                                                  (dict_set (ob_dict (h3 ! a)) history_key (VList l))))))
                     | Inr _ \<Rightarrow> Inl AttributeError)))"

text \<open>
  What a caller does with one context, call after call: \<open>ctx.save()\<close>,
  \<open>ctx.rollback(version)\<close>, \<open>ctx[key] = v\<close> and \<open>del ctx[key]\<close>. \<open>exec stmts h a\<close> runs
  the calls in order on the context at \<open>a\<close> and returns the last store with the values
  the calls of \<open>save\<close> returned, in order; the first exception ends the run.
\<close>

datatype stmt = Save | Rollback int | Assign string pyval | Delete string

fun exec :: "stmt list \<Rightarrow> heap \<Rightarrow> addr \<Rightarrow> exn + (heap \<times> int list)" where
  "exec [] h a = Inr (h, [])"
| "exec (Save # stmts) h a =
     (case save h a of
        Inl e \<Rightarrow> Inl e
      | Inr (h', r) \<Rightarrow>
          (case exec stmts h' a of
             Inl e \<Rightarrow> Inl e
           | Inr (h'', rs) \<Rightarrow> Inr (h'', r # rs)))"
| "exec (Rollback version # stmts) h a =
     (case rollback h a version of
        Inl e \<Rightarrow> Inl e
      | Inr h' \<Rightarrow> exec stmts h' a)"
| "exec (Assign key v # stmts) h a =
     (case setitem h a key v of
        Inl e \<Rightarrow> Inl e
      | Inr h' \<Rightarrow> exec stmts h' a)"
| "exec (Delete key # stmts) h a =
     (case delitem h a key of
        Inl e \<Rightarrow> Inl e
      | Inr h' \<Rightarrow> exec stmts h' a)"

definition saves :: "stmt list \<Rightarrow> nat" where
  "saves stmts = length (filter (\<lambda>s. s = Save) stmts)"

text \<open>The names of the methods that \<open>AspyreDictHistory\<close> adds to its base classes.\<close>

definition method_names :: "string list" where
  "method_names = [''get_current_version'', ''save'', ''rollback'']"

text \<open>
  A call that is no rollback and leaves the history slot and the methods alone: the key
  of an assignment or a deletion does not have the normal form of the key of the history
  slot, and an assignment does not store under the name of a method.
\<close>

fun plain :: "stmt \<Rightarrow> bool" where
  "plain Save = True"
| "plain (Rollback version) = False"
| "plain (Assign key v) = (key_f key \<noteq> key_f history_key \<and> key \<notin> set method_names)"
| "plain (Delete key) = (key_f key \<noteq> key_f history_key)"

text \<open>The entries of a context other than the reserved history slot, in order.\<close>

definition entries :: "pyobj \<Rightarrow> (string \<times> pyval) list" where
  "entries ob = dict_del (ob_dict ob) history_key"

text \<open>The keys of a Python dict are distinct.\<close>

definition wf_dict :: "(string \<times> 'v) list \<Rightarrow> bool" where
  "wf_dict d = distinct (map fst d)"

text \<open>
  A versioned context in a regular state: the object at \<open>a\<close> is an \<open>AspyreDictHistory\<close>
  whose history slot holds the list \<open>l\<close>.
\<close>

definition versioned :: "heap \<Rightarrow> addr \<Rightarrow> pyval list \<Rightarrow> bool" where
  "versioned h a l =
     (a < length h \<and> ob_class (h ! a) = AspyreDictHistory
      \<and> wf_dict (ob_dict (h ! a))
      \<and> dict_getitem (ob_dict (h ! a)) history_key = Inr (VList l))"

text \<open>No entry of the context has the name of a method of \<open>AspyreDictHistory\<close>.\<close>

definition methods_visible :: "pyobj \<Rightarrow> bool" where
  "methods_visible ob =
     (\<not> method_hidden ob ''get_current_version''
      \<and> \<not> method_hidden ob ''save''
      \<and> \<not> method_hidden ob ''rollback'')"

section \<open>The error classes (error.py)\<close>

text \<open>The table \<open>HTTPResponses\<close>, in the order of the source.\<close>

definition HTTPResponses :: "(int \<times> string) list" where
  "HTTPResponses =
     [(100, ''100 Continue''),
      (101, ''101 Switching Protocols''),
      (200, ''200 OK''),
      (201, ''201 Created''),
      (202, ''202 Accepted''),
      (203, ''203 Non-Authoritative Information''),
      (204, ''204 No Content''),
      (205, ''205 Reset Content''),
      (206, ''206 Partial Content''),
      (300, ''300 Multiple Choices''),
      (301, ''307 Temporary Redirect''),
      (302, ''307 Temporary Redirect''),
      (303, ''307 Temporary Redirect''),
      (304, ''304 Not Modified''),
      (305, ''305 Use Proxy''),
      (307, ''306 Temporary Redirect''),
      (400, ''400 Bad Request''),
      (401, ''401 Unauthorized''),
      (402, ''402 Payment Required''),
      (403, ''403 Forbidden''),
      (404, ''404 Not Found''),
      (405, ''405 Method Not Allowed''),
      (406, ''406 Not Acceptable''),
      (407, ''407 Proxy Authentication Required''),
      (408, ''408 Request Timeout''),
      (409, ''409 Conflict''),
      (410, ''410 Gone''),
      (411, ''411 Length Request''),
      (412, ''412 Precondition Failed''),
      (413, ''413 Request Entity Too Large''),
      (414, ''414 Request-URI Too Long''),
      (415, ''415 Unsupported Media Type''),
      (416, ''416 Range Not Satisfiable''),
      (417, ''417 Expectation Failed''),
      (418, ''418 I'' @ [CHR 0x27] @ ''m a teapot''),
      (500, ''500 Internal Server Error''),
      (501, ''501 Not Implemented''),
      (502, ''502 Bad Gateway''),
      (503, ''503 Service Unavailable''),
      (504, ''504 Gateway Timeout''),
      (505, ''505 HTTP Version Not Supported''),
      (555, ''555 Running Aspyre'')]"

text \<open>
  \<open>str.isalpha\<close>, \<open>str.upper\<close> and \<open>str.capitalize\<close> on ASCII text, which is what the
  table holds.
\<close>

definition isalpha :: "char \<Rightarrow> bool" where
  "isalpha c =
     (let n = (of_char c :: nat) in (65 \<le> n \<and> n \<le> 90) \<or> (97 \<le> n \<and> n \<le> 122))"

definition upper_char :: "char \<Rightarrow> char" where
  "upper_char c =
     (let n = (of_char c :: nat) in if 97 \<le> n \<and> n \<le> 122 then char_of (n - 32) else c)"

definition capitalize :: "string \<Rightarrow> string" where
  "capitalize s = (case s of [] \<Rightarrow> [] | c # cs \<Rightarrow> upper_char c # lower cs)"

text \<open>
  \<open>s.split(sep)\<close> for a separator that is not empty: \<open>split_from sep acc s\<close> is the split
  of \<open>s\<close> with the characters \<open>acc\<close> (in reverse) already read into the first piece.
\<close>

function split_from :: "string \<Rightarrow> string \<Rightarrow> string \<Rightarrow> string list" where
  "split_from sep acc [] = [rev acc]"
| "split_from sep acc (c # cs) =
     (if sep \<noteq> [] \<and> take (length sep) (c # cs) = sep
      then rev acc # split_from sep [] (drop (length sep) (c # cs))
      else split_from sep (c # acc) cs)"
  by pat_completeness auto
termination
  by (relation "measure (\<lambda>(sep, acc, s). length s)") auto

definition split :: "string \<Rightarrow> string \<Rightarrow> string list" where
  "split s sep = split_from sep [] s"

text \<open>
  The name under which the module binds the class of a status text:
  \<open>''.join([s.capitalize() for s in
     ''.join([c for c in text if c.isalpha() or c == ' ']).split(' ')])\<close>.
\<close>

definition class_name :: "string \<Rightarrow> string" where
  "class_name text =
     concat (map capitalize (split (filter (\<lambda>c. isalpha c \<or> c = CHR '' '') text) '' ''))"

text \<open>
  The loop at the end of the module: for every status code from 300 on,
  \<open>globals()[class_name] = _return_error_class(status_code)\<close>, a later binding of a name
  replacing an earlier one. A class is represented by the \<open>http_code\<close> it was made for.
\<close>

definition error_classes :: "(string \<times> int) list" where
  "error_classes =
     fold (\<lambda>(status_code, text) globals.
             if status_code < 300 then globals
             else dict_set globals (class_name text) status_code)
          HTTPResponses []"

text \<open>
  The constructor of a class made by \<open>_return_error_class(http_code)\<close>: its defaults are
  \<open>error_code=None, message=None, short_name=None, reraise=False\<close>.
\<close>

definition return_error_class :: "int \<Rightarrow> int option \<Rightarrow> string option \<Rightarrow> string option \<Rightarrow> bool \<Rightarrow> error" where
  "return_error_class code ec msg sn rr =
     \<lparr>http_code = code, error_code = ec, message = msg, short_name = sn, reraise = rr\<rparr>"

text \<open>
  The constructor of the base class \<open>Error\<close>: its defaults are
  \<open>http_code=500, error_code=None, message=None, short_name=None, reraise=True\<close>.
\<close>

definition Error_class :: "int option \<Rightarrow> string option \<Rightarrow> string option \<Rightarrow> bool \<Rightarrow> error" where
  "Error_class ec msg sn rr =
     \<lparr>http_code = 500, error_code = ec, message = msg, short_name = sn, reraise = rr\<rparr>"

text \<open>
  The names the module still binds after the loop that are no classes: the variables of
  the loop (\<open>status_code\<close>, \<open>text\<close>, \<open>class_name\<close>) and the attributes that the import
  sets on every module. None of them is bound to a callable.
\<close>

definition module_variables :: "string list" where
  "module_variables =
     [''status_code'', ''text'', ''class_name'',
      ''__name__'', ''__doc__'', ''__package__'', ''__loader__'', ''__spec__'',
      ''__file__'', ''__cached__'', ''__builtins__'']"

text \<open>
  The attributes a module object has from its type, in the versions of Python that the
  package runs on (it imports \<open>collections.MutableMapping\<close>, gone with Python 3.10).
  Each is found by the attribute lookup; none can be called with the one keyword
  argument \<open>message\<close>.
\<close>

definition module_type_attributes :: "string list" where
  "module_type_attributes =
     [''__class__'', ''__delattr__'', ''__dict__'', ''__dir__'', ''__eq__'', ''__format__'',
      ''__ge__'', ''__getattribute__'', ''__gt__'', ''__hash__'', ''__init__'',
      ''__init_subclass__'', ''__le__'', ''__lt__'', ''__ne__'', ''__new__'', ''__reduce__'',
      ''__reduce_ex__'', ''__repr__'', ''__setattr__'', ''__sizeof__'', ''__str__'',
      ''__subclasshook__'']"

text \<open>
  \<open>raise error.<name>(message=msg)\<close> as another module writes it: the attribute lookup
  on the module, then the call with the keyword argument \<open>message\<close>. The loop binds its
  classes after \<open>Error\<close> is bound, so that a class of the loop is found first. The call
  of an object that is no class, or that does not take the argument, raises \<open>TypeError\<close>,
  and a name that the lookup does not find raises \<open>AttributeError\<close>.
\<close>

definition raise_error :: "string \<Rightarrow> string \<Rightarrow> exn" where
  "raise_error name msg =
     (case map_of error_classes name of
        Some code \<Rightarrow> Error (return_error_class code None (Some msg) None False)
      | None \<Rightarrow>
          if name = ''Error'' then Error (Error_class None (Some msg) None True)
          else if name \<in> set module_variables \<or> name \<in> set module_type_attributes
          then TypeError
          else AttributeError)"

section \<open>The route registry (url_class.py)\<close>

text \<open>
  The regular expression engine is Python's \<open>re\<close>, outside the repository. A compiled
  pattern is represented by what \<open>re.fullmatch(pattern, s)\<close> answers for it: \<open>None\<close> when
  the whole of \<open>s\<close> does not match, and otherwise the \<open>groupdict()\<close> of the match, which
  binds every named group to the text it captured, or to \<open>None\<close> for a group that took
  no part in the match. A match object is always truthy.
\<close>

type_synonym groupdict = "(string \<times> string option) list"

type_synonym matcher = "string \<Rightarrow> groupdict option"

text \<open>An entry \<open>((host, path), cls)\<close> of \<open>self.__url_list\<close>.\<close>

type_synonym 'h route = "(matcher option \<times> matcher option) \<times> 'h"

text \<open>
  A conversion function gets the captured text and returns a value or raises. An object
  found under a name in the interpreter's \<open>__builtins__\<close> is a callable, or a falsy
  object (\<open>None\<close>, \<open>False\<close>), or a truthy object that cannot be called.
\<close>

type_synonym 'v conv = "string option \<Rightarrow> exn + 'v"

datatype 'v builtin = Callable "'v conv" | Falsy | NotCallable

text \<open>
  The keys of the module-level table \<open>__default_types__\<close>, in the order of the source. The
  table is bound at import and no function of the module reads it.
\<close>

definition default_types :: "string list" where
  "default_types =
     [''str'', ''strl'', ''stru'', ''int'', ''float'', ''date'', ''timestamp'', ''uuid'', ''base64'']"

definition separator :: string where
  "separator = ''0_d_collis_1''"

text \<open>\<open>Regex.group(type, name)\<close>: the name of the group it writes is \<open>type + separator + name\<close>.\<close>

definition group_name :: "string \<Rightarrow> string \<Rightarrow> string" where
  "group_name t name = t @ separator @ name"

subsection \<open>\<open>Regex.add_route\<close>\<close>

text \<open>
  An element of a tuple argument: \<open>None\<close>, a string, or an object of another type; and an
  argument of \<open>add_route\<close>: a string, a tuple of two elements, or anything else.
\<close>

datatype elem = ENone | EStr string | EOther

datatype url = UStr string | UTuple elem elem | UOther

definition truthy_elem :: "elem \<Rightarrow> bool" where
  "truthy_elem e = (case e of EStr s \<Rightarrow> s \<noteq> [] | _ \<Rightarrow> False)"

text \<open>
  One round of the loop of \<open>add_route\<close>. Its two parameters stand for the engine:
  \<open>sub s\<close> is \<open>Regex.__re_group_match.sub(Regex.__replacement_strategy__, s)\<close> and
  \<open>compile s\<close> is \<open>re.compile(s)\<close>; either may raise. In the tuple branch the result of
  \<open>sub\<close> is assigned to \<open>url[0]\<close> or \<open>url[1]\<close>, an element of a tuple: \<open>TypeError\<close>.
  \<open>url[0]\<close> on the empty string raises \<open>IndexError\<close>.
\<close>

definition add_route1 ::
  "(string \<Rightarrow> exn + string) \<Rightarrow> (string \<Rightarrow> exn + matcher) \<Rightarrow> 'h \<Rightarrow> 'h route list \<Rightarrow> url
     \<Rightarrow> exn + 'h route list" where
  "add_route1 sub compile cls url_list u =
     (case u of
        UTuple e0 e1 \<Rightarrow>
          if e0 = EOther then Inl ValueError
          else if e1 = EOther then Inl ValueError
          else if truthy_elem e0 then
            (case e0 of
               EStr s \<Rightarrow> (case sub s of Inl e \<Rightarrow> Inl e | Inr s' \<Rightarrow> Inl TypeError)
             | _ \<Rightarrow> Inl TypeError)
          else if truthy_elem e1 then
            (case e1 of
               EStr s \<Rightarrow>
                 if hd s = CHR ''/'' then
                   (case sub (tl s) of Inl e \<Rightarrow> Inl e | Inr s' \<Rightarrow> Inl TypeError)
                 else Inl ValueError
             | _ \<Rightarrow> Inl TypeError)
          else Inr (url_list @ [((None, None), cls)])
      | UStr s \<Rightarrow>
          if s = [] then Inl IndexError
          else if hd s = CHR ''/'' then
            (case sub (tl s) of
               Inl e \<Rightarrow> Inl e
             | Inr s' \<Rightarrow>
                 (case compile s' of
                    Inl e \<Rightarrow> Inl e
                  | Inr path \<Rightarrow> Inr (url_list @ [((None, Some path), cls)])))
          else Inl ValueError
      | UOther \<Rightarrow> Inl ValueError)"

text \<open>\<open>add_route(cls, *urls)\<close>: the loop; the first exception ends it.\<close>

fun add_route ::
  "(string \<Rightarrow> exn + string) \<Rightarrow> (string \<Rightarrow> exn + matcher) \<Rightarrow> 'h \<Rightarrow> 'h route list \<Rightarrow> url list
     \<Rightarrow> exn + 'h route list" where
  "add_route sub compile cls url_list [] = Inr url_list"
| "add_route sub compile cls url_list (u # urls) =
     (case add_route1 sub compile cls url_list u of
        Inl e \<Rightarrow> Inl e
      | Inr url_list' \<Rightarrow> add_route sub compile cls url_list' urls)"


subsection \<open>\<open>Regex.find\<close>\<close>

text \<open>
  \<open>re.fullmatch(u, s)\<close> for an entry \<open>u\<close> that is a pattern, on a request part that is a
  string or \<open>None\<close>; \<open>None\<close> is no string: \<open>TypeError\<close>. An entry that is \<open>None\<close> is skipped
  and leaves the match \<open>None\<close>.
\<close>

definition fullmatch :: "matcher option \<Rightarrow> string option \<Rightarrow> exn + groupdict option" where
  "fullmatch u s =
     (case u of
        None \<Rightarrow> Inr None
      | Some m \<Rightarrow> (case s of None \<Rightarrow> Inl TypeError | Some str \<Rightarrow> Inr (m str)))"

text \<open>
  The conversion of one captured value of type tag \<open>t\<close>: the caller's \<open>types\<close> when it has
  the tag, and otherwise \<open>globals()['__builtins__'][t]\<close>. In a module that is imported,
  \<open>__builtins__\<close> is the dict of the interpreter's builtins, and the lookup raises
  \<open>KeyError\<close> for a name the interpreter does not bind. \<open>builtins\<close> stands for that
  namespace. An object found there is called when it is truthy; for a falsy one the
  source raises \<open>AttributeError\<close>.
\<close>

definition convert :: "(string \<rightharpoonup> 'v conv) \<Rightarrow> (string \<rightharpoonup> 'v builtin) \<Rightarrow> string \<Rightarrow> string option \<Rightarrow> exn + 'v" where
  "convert types builtins t v =
     (case types t of
        Some f \<Rightarrow> f v
      | None \<Rightarrow>
          (case builtins t of
             None \<Rightarrow> Inl KeyError
           | Some func \<Rightarrow>
               (case func of
                  Callable f \<Rightarrow> f v
                | NotCallable \<Rightarrow> Inl TypeError
                | Falsy \<Rightarrow> Inl AttributeError)))"

text \<open>
  The loop over \<open>args.items()\<close>: \<open>t, name = key.split(Regex.__separator__)\<close> raises
  \<open>ValueError\<close> unless the split has exactly two pieces.
\<close>

fun convert_args ::
  "(string \<rightharpoonup> 'v conv) \<Rightarrow> (string \<rightharpoonup> 'v builtin) \<Rightarrow> groupdict \<Rightarrow> (string \<times> 'v) list
     \<Rightarrow> exn + (string \<times> 'v) list" where
  "convert_args types builtins [] ret_args = Inr ret_args"
| "convert_args types builtins ((key, v) # args) ret_args =
     (case split key separator of
        [t, name] \<Rightarrow>
          (case convert types builtins t v of
             Inl e \<Rightarrow> Inl e
           | Inr v' \<Rightarrow> convert_args types builtins args (dict_set ret_args name v'))
      | _ \<Rightarrow> Inl ValueError)"

text \<open>
  \<open>cls not in handlers\<close>: the elements of \<open>handlers\<close> are the tuples \<open>(cls, ret_args)\<close> that
  the loop appends, and a handler is equal to no tuple, so that the comparison of \<open>cls\<close>
  with an element is false whatever the element.
\<close>

definition handler_equals_entry :: "'h \<Rightarrow> 'h \<times> (string \<times> 'v) list \<Rightarrow> bool" where
  "handler_equals_entry cls entry = False"

definition not_in_handlers :: "'h \<Rightarrow> ('h \<times> (string \<times> 'v) list) list \<Rightarrow> bool" where
  "not_in_handlers cls handlers = (\<not> list_ex (handler_equals_entry cls) handlers)"

text \<open>The loop of \<open>find\<close> over \<open>self.__url_list\<close>, with the list \<open>handlers\<close> built so far.\<close>

fun find_loop ::
  "(string \<rightharpoonup> 'v conv) \<Rightarrow> (string \<rightharpoonup> 'v builtin) \<Rightarrow> string option \<Rightarrow> string option
     \<Rightarrow> 'h route list \<Rightarrow> ('h \<times> (string \<times> 'v) list) list
     \<Rightarrow> exn + ('h \<times> (string \<times> 'v) list) list" where
  "find_loop types builtins host path [] handlers = Inr handlers"
| "find_loop types builtins host path (((u0, u1), cls) # url_list) handlers =
     (case fullmatch u0 host of
        Inl e \<Rightarrow> Inl e
      | Inr m1 \<Rightarrow>
          (case fullmatch u1 path of
             Inl e \<Rightarrow> Inl e
           | Inr m2 \<Rightarrow>
               (let args = dict_update
                             (dict_update [] (case m1 of None \<Rightarrow> [] | Some g \<Rightarrow> g))
                             (case m2 of None \<Rightarrow> [] | Some g \<Rightarrow> g)
                in if m1 \<noteq> None \<or> m2 \<noteq> None then
                     (case convert_args types builtins args [] of
                        Inl e \<Rightarrow> Inl e
                      | Inr ret_args \<Rightarrow>
                          if not_in_handlers cls handlers
                          then find_loop types builtins host path url_list
                                 (handlers @ [(cls, ret_args)])
                          else find_loop types builtins host path url_list handlers)
                   else find_loop types builtins host path url_list handlers)))"

text \<open>\<open>Regex.find(host, path)\<close>.\<close>

definition find_Regex ::
  "(string \<rightharpoonup> 'v conv) \<Rightarrow> (string \<rightharpoonup> 'v builtin) \<Rightarrow> 'h route list \<Rightarrow> string option \<Rightarrow> string option
     \<Rightarrow> exn + ('h \<times> (string \<times> 'v) list) list" where
  "find_Regex types builtins url_list host path = find_loop types builtins host path url_list []"



text \<open>
  Two patterns of the engine, for the examples: \<open>literal p\<close> is what \<open>re.fullmatch\<close>
  answers for the pattern \<open>re.escape(p)\<close>, and \<open>one_group p g\<close> what it answers for
  \<open>re.escape(p) + '(?P<g>[^\/]+)'\<close>, the pattern \<open>Simple.add_route\<close> writes for a template
  that ends in one placeholder.
\<close>

definition literal :: "string \<Rightarrow> matcher" where
  "literal p s = (if s = p then Some [] else None)"

definition one_group :: "string \<Rightarrow> string \<Rightarrow> matcher" where
  "one_group p g s =
     (let rest = drop (length p) s
      in if take (length p) s = p \<and> rest \<noteq> [] \<and> CHR ''/'' \<notin> set rest
         then Some [(g, Some rest)] else None)"

text \<open>
  Two builtins of the interpreter, for the examples: \<open>str\<close> and \<open>bool\<close> on a captured
  value, which is a string or \<open>None\<close>.
\<close>

definition str_builtin :: "string conv" where
  "str_builtin v = Inr (case v of None \<Rightarrow> ''None'' | Some s \<Rightarrow> s)"

definition bool_builtin :: "bool conv" where
  "bool_builtin v = Inr (case v of None \<Rightarrow> False | Some s \<Rightarrow> s \<noteq> [])"

section \<open>The dispatcher (aspyre.py)\<close>

definition http_methods :: "string list" where
  "http_methods = [''get'', ''post'', ''put'', ''patch'', ''delete'']"

subsection \<open>\<open>Aspyre.find\<close>\<close>

text \<open>
  A handler is an object with attributes. \<open>h_id\<close> is its identity and \<open>h_attrs\<close> lists its
  attributes by name, each with whether its value is callable. A hook, the bound method
  \<open>getattr(handler, name)\<close>, is represented by the identity of the handler and the name.
\<close>

record handler =
  h_id :: nat
  h_attrs :: "(string \<times> bool) list"

type_synonym hook = "nat \<times> string"

type_synonym 'v entry = "hook \<times> (string \<times> 'v) list"

type_synonym 'v stages = "(string \<times> 'v entry list) list"

text \<open>\<open>callable(getattr(handler, name, None))\<close>\<close>

definition callable :: "handler \<Rightarrow> string \<Rightarrow> bool" where
  "callable h name = (map_of (h_attrs h) name = Some True)"

text \<open>\<open>getattr(handler, name)\<close>, which raises when the handler has no such attribute.\<close>

definition getattr :: "handler \<Rightarrow> string \<Rightarrow> exn + hook" where
  "getattr h name =
     (case map_of (h_attrs h) name of
        None \<Rightarrow> Inl AttributeError
      | Some c \<Rightarrow> Inr (h_id h, name))"

text \<open>\<open>handlers[k].append(x)\<close> and \<open>handlers[k].insert(0, x)\<close> on the ordered dict.\<close>

definition stage_append :: "'v stages \<Rightarrow> string \<Rightarrow> 'v entry \<Rightarrow> exn + 'v stages" where
  "stage_append handlers k x =
     (case dict_getitem handlers k of
        Inl e \<Rightarrow> Inl e
      | Inr l \<Rightarrow> Inr (dict_set handlers k (l @ [x])))"

definition stage_insert0 :: "'v stages \<Rightarrow> string \<Rightarrow> 'v entry \<Rightarrow> exn + 'v stages" where
  "stage_insert0 handlers k x =
     (case dict_getitem handlers k of
        Inl e \<Rightarrow> Inl e
      | Inr l \<Rightarrow> Inr (dict_set handlers k (x # l)))"

text \<open>One \<open>if\<close> statement of the loop body, after the statements before it.\<close>

definition step :: "bool \<Rightarrow> ('s \<Rightarrow> exn + 's) \<Rightarrow> exn + 's \<Rightarrow> exn + 's" where
  "step cond f r = (case r of Inl e \<Rightarrow> Inl e | Inr s \<Rightarrow> if cond then f s else Inr s)"

text \<open>
  The body of the loop over \<open>found_handlers\<close>, for one \<open>(handler, arguments)\<close>. The fourth
  statement tests the attribute \<open>after\<close> and inserts \<open>getattr(handler, method)\<close>, as the
  source does.
\<close>

definition add_handler :: "string \<Rightarrow> 'v stages \<Rightarrow> handler \<times> (string \<times> 'v) list \<Rightarrow> exn + 'v stages" where
  "add_handler method handlers found =
     (let handler = fst found; arguments = snd found;
          before = ''before_'' @ method; after = ''after_'' @ method
      in step (callable handler ''after'')
           (\<lambda>hs. stage_insert0 hs ''after'' ((h_id handler, ''after''), arguments))
        (step (callable handler after)
           (\<lambda>hs. case dict_getitem hs after of
                    Inl e \<Rightarrow> Inl e
                  | Inr l \<Rightarrow> (case getattr handler method of
                                Inl e \<Rightarrow> Inl e
                              | Inr m \<Rightarrow> stage_insert0 hs after (m, arguments)))
        (step (callable handler method)
           (\<lambda>hs. stage_append hs method ((h_id handler, method), arguments))
        (step (callable handler before)
           (\<lambda>hs. stage_append hs before ((h_id handler, before), arguments))
        (step (callable handler ''before'')
           (\<lambda>hs. stage_append hs ''before'' ((h_id handler, ''before''), arguments))
        (Inr handlers))))))"

fun add_handlers :: "string \<Rightarrow> 'v stages \<Rightarrow> (handler \<times> (string \<times> 'v) list) list \<Rightarrow> exn + 'v stages" where
  "add_handlers method handlers [] = Inr handlers"
| "add_handlers method handlers (found # found_handlers) =
     (case add_handler method handlers found of
        Inl e \<Rightarrow> Inl e
      | Inr handlers' \<Rightarrow> add_handlers method handlers' found_handlers)"

text \<open>
  The five assignments \<open>handlers[k] = []\<close> to the new \<open>OrderedDict\<close>, in the order of the
  source.
\<close>

definition empty_stages :: "string \<Rightarrow> 'v stages" where
  "empty_stages method =
     dict_set (dict_set (dict_set (dict_set (dict_set [] ''before'' [])
       (''before_'' @ method) []) method []) (''after_'' @ method) []) ''after'' []"

text \<open>
  The body of \<open>Aspyre.find(host, path, method)\<close>, that is, what awaiting the coroutine
  gives. \<open>url_class_find\<close> is \<open>self.url_class.find\<close>; a list is truthy when it is not
  empty.
\<close>

definition find_Aspyre ::
  "(string option \<Rightarrow> string option \<Rightarrow> exn + (handler \<times> (string \<times> 'v) list) list)
     \<Rightarrow> string option \<Rightarrow> string option \<Rightarrow> string \<Rightarrow> exn + 'v stages option" where
  "find_Aspyre url_class_find host path method =
     (case url_class_find host path of
        Inl e \<Rightarrow> Inl e
      | Inr found_handlers \<Rightarrow>
          if found_handlers \<noteq> [] then
            (case add_handlers method (empty_stages method) found_handlers of
               Inl e \<Rightarrow> Inl e
             | Inr handlers \<Rightarrow> Inr (Some handlers))
          else Inr None)"

text \<open>
  The chain: the order in which \<open>handle\<close> meets the hooks,
  \<open>for key, value in handlers.items(): for handler in value\<close>.
\<close>

definition chain :: "'v stages \<Rightarrow> 'v entry list" where
  "chain handlers = concat (map snd handlers)"

subsection \<open>\<open>Aspyre.handle\<close>\<close>

text \<open>
  What awaiting \<open>handler(context, in_headers, input, response, *arguments)\<close> does is a
  parameter: from the store and the arguments to the value returned and the new store,
  or to the exception raised. \<open>arguments\<close> is a dict, and \<open>*arguments\<close> unpacks a dict to
  its keys.
\<close>

type_synonym behaviour =
  "hook \<Rightarrow> heap \<Rightarrow> addr \<Rightarrow> addr \<Rightarrow> pyval \<Rightarrow> pyval \<Rightarrow> string list \<Rightarrow> exn + (pyval \<times> heap)"

text \<open>
  The \<open>try\<close> statement of the loop, for one entry of the chain.

  The name \<open>error\<close> is assigned in the body of \<open>handle\<close> (\<open>error = self.dict_class()\<close> in
  the first \<open>except\<close> clause), so that it is a local variable of \<open>handle\<close> everywhere in
  the function, and not the module \<open>error\<close> that the file imports. The assignment is
  inside the clause \<open>except error.Error as e\<close>, which is entered only once \<open>error.Error\<close>
  has been evaluated, so the local is unbound whenever it is read. An exception raised
  in the \<open>try\<close> block, by the hook or by \<open>context['http_code'] = result\<close>, makes Python
  evaluate \<open>error.Error\<close> to match the first clause: \<open>UnboundLocalError\<close>, which leaves
  the \<open>try\<close> statement and \<open>handle\<close>. No clause body is ever run.
\<close>

definition try_hook ::
  "behaviour \<Rightarrow> heap \<Rightarrow> addr \<Rightarrow> addr \<Rightarrow> pyval \<Rightarrow> pyval \<Rightarrow> 'v entry \<Rightarrow> exn + heap" where
  "try_hook hooks h context in_headers input response ent =
     (case (case hooks (fst ent) h context in_headers input response (map fst (snd ent)) of
              Inl e \<Rightarrow> Inl e
            | Inr (result, h') \<Rightarrow>
                (case result of
                   VInt n \<Rightarrow> setitem h' context ''http_code'' result
                 | _ \<Rightarrow> Inr h')) of
        Inl e \<Rightarrow> Inl UnboundLocalError
      | Inr h' \<Rightarrow> Inr h')"

text \<open>
  The body of the clause \<open>except error.Error as e\<close>, lines 124 to 142 of the source, as it
  would run were the clause entered: it returns from \<open>handle\<close> with the encoded error
  (\<open>Inl\<close>) or goes on with the loop (\<open>Inr\<close>). \<open>try_hook\<close> does not use it, for the reason
  given above. \<open>encode_error\<close> is \<open>self.codec.encode\<close> on an exception.
\<close>

definition except_Error_body ::
  "klass \<Rightarrow> (error \<Rightarrow> 'b) \<Rightarrow> heap \<Rightarrow> addr \<Rightarrow> error \<Rightarrow> exn + ('b + heap)" where
  "except_Error_body dict_class encode_error h context e =
     (if reraise e then Inr (Inl (encode_error e))
      else
        (case new h dict_class VNone of
           Inl x \<Rightarrow> Inl x
         | Inr (h1, err) \<Rightarrow>
             (case setitem h1 err ''code''
                     (VInt (case error_code e of Some ec \<Rightarrow> ec | None \<Rightarrow> http_code e)) of
                Inl x \<Rightarrow> Inl x
              | Inr h2 \<Rightarrow>
                  (case setitem h2 err ''message''
                          (VStr (case message e of
                                   Some m \<Rightarrow> m
                                 | None \<Rightarrow> ''An error has occured.'')) of
                     Inl x \<Rightarrow> Inl x
                   | Inr h3 \<Rightarrow>
                       (case (case short_name e of
                                Some n \<Rightarrow> setitem h3 err ''name'' (VStr n)
                              | None \<Rightarrow> Inr h3) of
                          Inl x \<Rightarrow> Inl x
                        | Inr h4 \<Rightarrow>
                            (case setitem h4 context ''error'' (VRef err) of
                               Inl x \<Rightarrow> Inl x
                             | Inr h5 \<Rightarrow>
                                 (case setitem h5 context ''http_code'' (VInt (http_code e)) of
                                    Inl x \<Rightarrow> Inl x
                                  | Inr h6 \<Rightarrow> Inr (Inr h6))))))))"

fun run_chain ::
  "behaviour \<Rightarrow> heap \<Rightarrow> addr \<Rightarrow> addr \<Rightarrow> pyval \<Rightarrow> pyval \<Rightarrow> 'v entry list \<Rightarrow> exn + heap" where
  "run_chain hooks h context in_headers input response [] = Inr h"
| "run_chain hooks h context in_headers input response (ent # rest) =
     (case try_hook hooks h context in_headers input response ent of
        Inl e \<Rightarrow> Inl e
      | Inr h' \<Rightarrow> run_chain hooks h' context in_headers input response rest)"

text \<open>
  \<open>handle(handlers, input, headers, query_string)\<close>. Its parameters beyond those of the
  source: \<open>dict_class\<close> is the attribute \<open>self.dict_class\<close>, which \<open>__init__\<close> does not set
  (\<open>None\<close> when the object has no such attribute); \<open>get_class\<close> and \<open>encode\<close> are the
  methods of \<open>self.codec\<close>; \<open>parse_qs\<close> is \<open>urllib.parse.parse_qs\<close>; \<open>hooks\<close> is what the
  hooks do. \<open>handlers\<close> is \<open>None\<close> or an ordered dict, falsy when \<open>None\<close> or empty. The
  first statement reads the local \<open>error\<close>, as explained above.
\<close>

definition handle ::
  "klass option \<Rightarrow> (heap \<Rightarrow> exn + (heap \<times> pyval)) \<Rightarrow> (heap \<Rightarrow> pyval \<Rightarrow> 'b) \<Rightarrow> (string \<Rightarrow> pyval)
     \<Rightarrow> behaviour \<Rightarrow> heap \<Rightarrow> 'v stages option \<Rightarrow> pyval \<Rightarrow> pyval \<Rightarrow> string option
     \<Rightarrow> exn + ('b \<times> addr \<times> heap)" where
  "handle dict_class get_class encode parse_qs hooks h handlers input headers query_string =
     (case handlers of
        None \<Rightarrow> Inl UnboundLocalError
      | Some hs \<Rightarrow>
          if hs = [] then Inl UnboundLocalError
          else
            (case dict_class of
               None \<Rightarrow> Inl AttributeError
             | Some c \<Rightarrow>
                 (case new h c VNone of
                    Inl e \<Rightarrow> Inl e
                  | Inr (h1, context) \<Rightarrow>
                      (case setitem h1 context ''arguments''
                              (case query_string of
                                 None \<Rightarrow> VNone
                               | Some q \<Rightarrow> if q \<noteq> [] then parse_qs q else VNone) of
                         Inl e \<Rightarrow> Inl e
                       | Inr h2 \<Rightarrow>
                           (case setitem h2 context ''headers'' headers of
                              Inl e \<Rightarrow> Inl e
                            | Inr h3 \<Rightarrow>
                                (case get_class h3 of
                                   Inl e \<Rightarrow> Inl e
                                 | Inr (h4, response) \<Rightarrow>
                                     (case new h4 c VNone of
                                        Inl e \<Rightarrow> Inl e
                                      | Inr (h5, in_headers) \<Rightarrow>
                                          (case run_chain hooks h5 context in_headers input
                                                  response (chain hs) of
                                             Inl e \<Rightarrow> Inl e
                                           | Inr h6 \<Rightarrow>
                                               Inr (encode h6 response, context, h6)))))))))"

text \<open>\<open>AspyreJSONCodec\<close> (codec.py): \<open>get_class\<close> and \<open>encode\<close>, which returns \<open>bytes()\<close>.\<close>

definition get_class_JSON :: "heap \<Rightarrow> exn + (heap \<times> pyval)" where
  "get_class_JSON h =
     (case new h AspyreDictHistory VNone of
        Inl e \<Rightarrow> Inl e
      | Inr (h', a) \<Rightarrow> Inr (h', VRef a))"

definition encode_JSON :: "heap \<Rightarrow> pyval \<Rightarrow> string" where
  "encode_JSON h output = []"

subsection \<open>\<open>Aspyre.__call__\<close>\<close>

text \<open>
  Calling a function declared \<open>async def\<close> runs none of its body: it binds the arguments
  and returns a coroutine object, which only \<open>await\<close> runs. Binding the arguments is what
  raises \<open>TypeError\<close> when a required argument is missing. A coroutine object is truthy.
\<close>

datatype 'a coroutine = Coroutine 'a

definition truthy_coroutine :: "'a coroutine \<Rightarrow> bool" where
  "truthy_coroutine c = True"

text \<open>
  \<open>__call__(host, path, method, input, headers, query_string)\<close>, that is, what awaiting it
  gives. \<open>handlers = self.find(host, path, method)\<close> has no \<open>await\<close>: \<open>handlers\<close> is the
  coroutine object. \<open>self.handle(handlers, input, query_string)\<close> passes three arguments
  to a function of four required parameters \<open>(handlers, input, headers, query_string)\<close>.
\<close>

definition call ::
  "(string option \<Rightarrow> string option \<Rightarrow> exn + (handler \<times> (string \<times> 'v) list) list)
     \<Rightarrow> string option \<Rightarrow> string option \<Rightarrow> string \<Rightarrow> pyval \<Rightarrow> pyval \<Rightarrow> string option
     \<Rightarrow> exn + 'r" where
  "call url_class_find host path method input headers query_string =
     (if method \<notin> set http_methods
      then Inl (raise_error ''NotImplemented'' ''The server does not support this HTTP method.'')
      else
        (let handlers = Coroutine (find_Aspyre url_class_find host path method)
         in if truthy_coroutine handlers then Inl TypeError
            else Inl (raise_error ''NotFound'' ''No matching handler for URL found.'')))"

text \<open>
  \<open>Aspyre.__fix_params__\<close>, for the keyword \<open>method\<close>: the only place of the program that
  knows the method \<open>head\<close>. No function of the program calls it.
\<close>

definition fix_params_method :: "string \<Rightarrow> bool \<times> string option" where
  "fix_params_method method =
     (if method = ''head'' then (True, Some ''get'') else (False, None))"

subsection \<open>Two handlers for the examples\<close>

text \<open>A handler class that defines every hook of the \<open>get\<close> family, and two handlers of it.\<close>

definition get_family :: "(string \<times> bool) list" where
  "get_family =
     [(''before'', True), (''before_get'', True), (''get'', True),
      (''after_get'', True), (''after'', True)]"

definition handler_A :: handler where
  "handler_A = \<lparr>h_id = 0, h_attrs = get_family\<rparr>"

definition handler_B :: handler where
  "handler_B = \<lparr>h_id = 1, h_attrs = get_family\<rparr>"

section \<open>Properties of the context classes\<close>

subsection \<open>Insertion-ordered dicts\<close>

lemma dict_set_fresh: "k \<notin> fst ` set d \<Longrightarrow> dict_set d k v = d @ [(k, v)]"
  by (induction d) auto

lemma dict_update_distinct:
  "distinct (map fst (acc @ e)) \<Longrightarrow> dict_update acc e = acc @ e"
proof (induction e arbitrary: acc)
  case Nil
  then show ?case by (simp add: dict_update_def)
next
  case (Cons kv e)
  have fresh: "fst kv \<notin> fst ` set acc" using Cons.prems by auto
  have "dict_update acc (kv # e) = dict_update (dict_set acc (fst kv) (snd kv)) e"
    by (simp add: dict_update_def)
  also have "\<dots> = dict_update (acc @ [kv]) e"
    using fresh by (simp add: dict_set_fresh)
  also have "\<dots> = (acc @ [kv]) @ e"
    using Cons.prems by (intro Cons.IH) simp
  finally show ?case by simp
qed

lemma dict_update_empty: "wf_dict d \<Longrightarrow> dict_update [] d = d"
  using dict_update_distinct [of "[]" d] by (simp add: wf_dict_def)

lemma dict_del_dict_set: "dict_del (dict_set d k v) k = dict_del d k"
  by (induction d) (auto simp: dict_del_def)

lemma dict_del_idem: "dict_del (dict_del d k) k = dict_del d k"
  by (simp add: dict_del_def)

lemma wf_dict_del: "wf_dict d \<Longrightarrow> wf_dict (dict_del d k)"
  by (simp add: wf_dict_def dict_del_def distinct_map_filter)

lemma keys_dict_set:
  "map fst (dict_set d k v) = (if k \<in> set (map fst d) then map fst d else map fst d @ [k])"
proof (induction d)
  case Nil
  show ?case by simp
next
  case (Cons kv d)
  obtain k' v' where kv: "kv = (k', v')" by (cases kv)
  show ?case using Cons.IH by (cases "k' = k") (simp_all add: kv)
qed

lemma wf_dict_set: "wf_dict d \<Longrightarrow> wf_dict (dict_set d k v)"
  by (simp add: wf_dict_def keys_dict_set)

lemma wf_dict_update: "wf_dict d \<Longrightarrow> wf_dict (dict_update d e)"
  unfolding dict_update_def
  by (induction e arbitrary: d) (simp_all add: wf_dict_set)

lemma dict_getitem_dict_set: "dict_getitem (dict_set d k v) k = Inr v"
  by (induction d) (auto simp: dict_getitem_def)

lemma map_of_dict_set_same: "map_of (dict_set d k v) k = Some v"
  by (induction d) auto

lemma map_of_dict_set_other: "k' \<noteq> k \<Longrightarrow> map_of (dict_set d k' v) k = map_of d k"
  by (induction d) auto

lemma map_of_dict_del_other: "k' \<noteq> k \<Longrightarrow> map_of (dict_del d k') k = map_of d k"
  by (induction d) (auto simp: dict_del_def)

lemma dict_getitem_dict_del: "dict_getitem (dict_del d k) k = Inl KeyError"
  by (induction d) (auto simp: dict_getitem_def dict_del_def)

lemma list_getitem_last: "list_getitem (xs @ [x]) (- 1) = Inr x"
  by (simp add: list_getitem_def)

lemma find_append:
  "find P (xs @ ys) = (case find P xs of None \<Rightarrow> find P ys | Some x \<Rightarrow> Some x)"
  by (induction xs) auto

lemma find_some_key:
  "find P (map fst d) = Some ck \<Longrightarrow> ck \<in> set (map fst d) \<and> P ck"
  by (auto simp: find_Some_iff)

subsection \<open>Normal forms of keys\<close>

lemma lower_char_ascii_lowercase: "c \<in> set ascii_lowercase \<Longrightarrow> lower_char c = c"
  by (auto simp: ascii_lowercase_def lower_char_def)

lemma key_f_idem: "key_f (key_f k) = key_f k"
proof -
  have "map lower_char (filter (\<lambda>c. c \<in> set ascii_lowercase) s)
        = filter (\<lambda>c. c \<in> set ascii_lowercase) s" for s
    by (induction s) (auto simp: lower_char_ascii_lowercase)
  then show ?thesis by (simp add: key_f_def lower_def)
qed

subsection \<open>Entries that hide methods\<close>

lemma method_names_not_history:
  "history_key \<noteq> ''get_current_version''" "history_key \<noteq> ''save''"
  "history_key \<noteq> ''rollback''"
  by (simp_all add: history_key_def)

lemma methods_visible_dict_set_history:
  "methods_visible (ob\<lparr>ob_dict := dict_set (ob_dict ob) history_key v\<rparr>) = methods_visible ob"
  by (simp add: methods_visible_def method_hidden_def map_of_dict_set_other
      method_names_not_history)

lemma methods_visible_entries:
  "methods_visible (ob\<lparr>ob_dict := dict_set (entries ob) history_key v\<rparr>) = methods_visible ob"
  by (simp add: methods_visible_def method_hidden_def entries_def map_of_dict_set_other
      map_of_dict_del_other method_names_not_history)

subsection \<open>What \<open>save\<close> does\<close>

lemma save_eq:
  assumes v: "versioned h a l" and m: "methods_visible (h ! a)"
  shows "save h a =
    Inr ((h[a := (h ! a)\<lparr>ob_dict := dict_set (ob_dict (h ! a)) history_key (VList (l @ [VRef (length h)]))\<rparr>])
           @ [\<lparr>ob_class = AspyreDictHistory,
               ob_dict = dict_set (dict_del (dict_update [] (ob_dict (h ! a))) history_key)
                           history_key (VList l)\<rparr>],
         int (length l) + 1)"
proof -
  have g: "\<not> method_hidden ((h ! a)\<lparr>ob_dict := dict_set (ob_dict (h ! a)) history_key (VList (l @ [VRef (length h)]))\<rparr>) ''get_current_version''"
    using m methods_visible_dict_set_history [of "h ! a"] by (simp add: methods_visible_def)
  show ?thesis
    using v m g
    by (simp add: versioned_def methods_visible_def save_def deref_def new_def
        init_Immutable_def init_History_def py_list_def set_dict_def get_current_version_def
        nth_append list_update_append1 dict_getitem_dict_set py_len_def)
qed

lemma save_state:
  assumes v: "versioned h a l" and m: "methods_visible (h ! a)"
    and s: "save h a = Inr (h1, n)"
  shows "n = int (length l) + 1"
    and "versioned h1 a (l @ [VRef (length h)])"
    and "methods_visible (h1 ! a)"
    and "entries (h1 ! a) = entries (h ! a)"
    and "length h1 = Suc (length h)"
    and "h1 ! length h = \<lparr>ob_class = AspyreDictHistory,
               ob_dict = dict_set (dict_del (dict_update [] (ob_dict (h ! a))) history_key)
                           history_key (VList l)\<rparr>"
proof -
  have a: "a < length h" and c: "ob_class (h ! a) = AspyreDictHistory"
    and w: "wf_dict (ob_dict (h ! a))"
    using v by (simp_all add: versioned_def)
  have h1: "h1 = (h[a := (h ! a)\<lparr>ob_dict := dict_set (ob_dict (h ! a)) history_key (VList (l @ [VRef (length h)]))\<rparr>])
           @ [\<lparr>ob_class = AspyreDictHistory,
               ob_dict = dict_set (dict_del (dict_update [] (ob_dict (h ! a))) history_key)
                           history_key (VList l)\<rparr>]"
    and n: "n = int (length l) + 1"
    using s unfolding save_eq [OF v m] by simp_all
  have at_a: "h1 ! a = (h ! a)\<lparr>ob_dict := dict_set (ob_dict (h ! a)) history_key (VList (l @ [VRef (length h)]))\<rparr>"
    using a by (simp add: h1 nth_append)
  show "n = int (length l) + 1" by (rule n)
  show "versioned h1 a (l @ [VRef (length h)])"
    using a c w by (simp add: versioned_def at_a dict_getitem_dict_set wf_dict_set) (simp add: h1)
  show "methods_visible (h1 ! a)"
    using m by (simp add: at_a methods_visible_dict_set_history)
  show "entries (h1 ! a) = entries (h ! a)"
    by (simp add: at_a entries_def dict_del_dict_set)
  show "length h1 = Suc (length h)" by (simp add: h1)
  show "h1 ! length h = \<lparr>ob_class = AspyreDictHistory,
               ob_dict = dict_set (dict_del (dict_update [] (ob_dict (h ! a))) history_key)
                           history_key (VList l)\<rparr>"
    by (simp add: h1 nth_append)
qed

lemma get_current_version_list:
  assumes "versioned h a l" and "methods_visible (h ! a)"
  shows "get_current_version h a = Inr (int (length l))"
  using assms
  by (simp add: versioned_def methods_visible_def get_current_version_def deref_def py_len_def)

subsection \<open>Assignments and deletions that leave the history slot alone\<close>

lemma lower_history_key: "lower history_key = history_key"
  by code_simp

lemma lower_is_history_key: "lower key = history_key \<Longrightarrow> key_f key = key_f history_key"
  by (simp add: key_f_def lower_history_key)

lemma find_key_Immutable_cases:
  "snd (find_key_Immutable d key) = key
   \<or> (snd (find_key_Immutable d key) \<in> set (map fst d)
      \<and> key_f key = key_f (snd (find_key_Immutable d key)))"
proof (cases "find (\<lambda>cls_key. key_f key = key_f cls_key) (map fst d)")
  case None
  then show ?thesis by (simp add: find_key_Immutable_def)
next
  case (Some ck)
  from find_some_key [OF Some] show ?thesis
    using Some by (simp add: find_key_Immutable_def)
qed

lemma find_key_Immutable_found:
  "fst (find_key_Immutable d key)
   \<Longrightarrow> snd (find_key_Immutable d key) \<in> set (map fst d)
      \<and> key_f key = key_f (snd (find_key_Immutable d key))"
proof (cases "find (\<lambda>cls_key. key_f key = key_f cls_key) (map fst d)")
  case None
  assume "fst (find_key_Immutable d key)"
  then show ?thesis using None by (simp add: find_key_Immutable_def)
next
  case (Some ck)
  from find_some_key [OF Some] show ?thesis
    using Some by (simp add: find_key_Immutable_def)
qed

lemma map_of_None_not_key: "map_of d k = None \<Longrightarrow> k \<notin> set (map fst d)"
  by (simp add: map_of_eq_None_iff)

lemma new_plain_dict:
  "\<exists>ob. new h c (VMap mm) = Inr (h @ [ob], length h)"
  by (simp add: new_def init_Immutable_def init_History_def Let_def)

lemma setitem_AspyreDict_shape:
  assumes "a < length h"
  shows "\<exists>h'' x. setitem_AspyreDict h a key val
            = Inr (h''[a := (h ! a)\<lparr>ob_dict := dict_set (ob_dict (h ! a))
                                         (snd (find_key_Immutable (ob_dict (h ! a)) key)) x\<rparr>])
          \<and> length h \<le> length h''"
proof (cases "\<exists>mm. val = VMap mm")
  case True
  then obtain mm where val: "val = VMap mm" by blast
  obtain ob where n: "new h (ob_class (h ! a)) (VMap mm) = Inr (h @ [ob], length h)"
    using new_plain_dict by blast
  have "setitem_AspyreDict h a key val
        = Inr ((h @ [ob])[a := (h ! a)\<lparr>ob_dict := dict_set (ob_dict (h ! a))
                 (snd (find_key_Immutable (ob_dict (h ! a)) key)) (VRef (length h))\<rparr>])"
    using assms
    by (simp add: setitem_AspyreDict_def deref_def val n set_dict_def Let_def nth_append
        del: dict_set.simps)
  moreover have "length h \<le> length (h @ [ob])" by simp
  ultimately show ?thesis by blast
next
  case False
  then have "setitem_AspyreDict h a key val
        = Inr (h[a := (h ! a)\<lparr>ob_dict := dict_set (ob_dict (h ! a))
                 (snd (find_key_Immutable (ob_dict (h ! a)) key)) val\<rparr>])"
    using assms
    by (cases val)
       (simp_all add: setitem_AspyreDict_def deref_def set_dict_def Let_def del: dict_set.simps)
  then show ?thesis by blast
qed

lemma setitem_plain:
  assumes v: "versioned h a l" and m: "methods_visible (h ! a)"
    and k: "key_f key \<noteq> key_f history_key" and n: "key \<notin> set method_names"
  shows "\<exists>h'. setitem h a key val = Inr h' \<and> versioned h' a l \<and> methods_visible (h' ! a)"
proof -
  let ?d = "ob_dict (h ! a)"
  let ?key = "snd (find_key_Immutable ?d key)"
  have a: "a < length h" and c: "ob_class (h ! a) = AspyreDictHistory"
    and w: "wf_dict ?d" and hl: "dict_getitem ?d history_key = Inr (VList l)"
    using v by (simp_all add: versioned_def)
  have g: "lower key \<noteq> history_key"
    using k lower_is_history_key by blast
  have kh: "?key \<noteq> history_key"
    using find_key_Immutable_cases [of ?d key] k by auto
  have hidden: "map_of ?d name = None" if "name \<in> set method_names" for name
    using m that by (auto simp: methods_visible_def method_hidden_def method_names_def)
  have km: "?key \<notin> set method_names"
  proof
    assume in_names: "?key \<in> set method_names"
    from find_key_Immutable_cases [of ?d key] show False
    proof
      assume "?key = key"
      then show False using in_names n by simp
    next
      assume "?key \<in> set (map fst ?d) \<and> key_f key = key_f ?key"
      then show False
        using map_of_None_not_key [OF hidden [OF in_names]] by simp
    qed
  qed
  obtain h'' x where s: "setitem_AspyreDict h a key val
            = Inr (h''[a := (h ! a)\<lparr>ob_dict := dict_set ?d ?key x\<rparr>])"
    and len: "length h \<le> length h''"
    using setitem_AspyreDict_shape [OF a] by blast
  let ?h' = "h''[a := (h ! a)\<lparr>ob_dict := dict_set ?d ?key x\<rparr>]"
  have a'': "a < length h''" using a len by simp
  have at: "?h' ! a = (h ! a)\<lparr>ob_dict := dict_set ?d ?key x\<rparr>"
    using a'' by simp
  have st: "setitem h a key val = Inr ?h'"
    using a c g s by (simp add: setitem_def deref_def)
  have hl': "dict_getitem (dict_set ?d ?key x) history_key = Inr (VList l)"
    using hl kh by (simp add: dict_getitem_def map_of_dict_set_other)
  have v': "versioned ?h' a l"
    unfolding versioned_def at using a'' c w hl' by (simp add: wf_dict_set)
  have m': "methods_visible (?h' ! a)"
    unfolding at using km hidden
    by (simp add: methods_visible_def method_hidden_def method_names_def map_of_dict_set_other)
  show ?thesis using st v' m' by blast
qed

lemma delitem_plain:
  assumes v: "versioned h a l" and m: "methods_visible (h ! a)"
    and k: "key_f key \<noteq> key_f history_key"
  shows "\<exists>h'. delitem h a key = Inr h' \<and> versioned h' a l \<and> methods_visible (h' ! a)"
proof -
  let ?d = "ob_dict (h ! a)"
  let ?key = "snd (find_key_Immutable ?d key)"
  have a: "a < length h" and c: "ob_class (h ! a) = AspyreDictHistory"
    and w: "wf_dict ?d" and hl: "dict_getitem ?d history_key = Inr (VList l)"
    using v by (simp_all add: versioned_def)
  have g: "lower key \<noteq> history_key"
    using k lower_is_history_key by blast
  obtain found key' where fk: "find_key_Immutable ?d key = (found, key')"
    by (cases "find_key_Immutable ?d key")
  show ?thesis
  proof (cases found)
    case False
    then have "delitem h a key = Inr h"
      using a c g by (simp add: delitem_def delitem_AspyreDict_def deref_def fk)
    then show ?thesis using v m by blast
  next
    case True
    then have found: "fst (find_key_Immutable ?d key)" by (simp add: fk)
    have kh: "?key \<noteq> history_key"
      using find_key_Immutable_found [OF found] k by auto
    let ?h' = "h[a := (h ! a)\<lparr>ob_dict := dict_del ?d ?key\<rparr>]"
    have st: "delitem h a key = Inr ?h'"
      using a c g True
      by (simp add: delitem_def delitem_AspyreDict_def deref_def set_dict_def fk)
    have at: "?h' ! a = (h ! a)\<lparr>ob_dict := dict_del ?d ?key\<rparr>"
      using a by simp
    have hl': "dict_getitem (dict_del ?d ?key) history_key = Inr (VList l)"
      using hl kh by (simp add: dict_getitem_def map_of_dict_del_other)
    have v': "versioned ?h' a l"
      unfolding versioned_def at using a c w hl' by (simp add: wf_dict_del)
    have none: "map_of (dict_del ?d ?key) name = None" if "map_of ?d name = None" for name
      using that by (auto simp: dict_del_def map_of_eq_None_iff)
    have m': "methods_visible (?h' ! a)"
      unfolding at using m none
      by (simp add: methods_visible_def method_hidden_def)
    show ?thesis using st v' m' by blast
  qed
qed

lemma exec_plain:
  assumes "versioned h a l" and "methods_visible (h ! a)" and "list_all plain stmts"
  shows "\<exists>h' l'. exec stmts h a
             = Inr (h', map (\<lambda>k. int (length l + k) + 1) [0..<saves stmts])
           \<and> versioned h' a l' \<and> methods_visible (h' ! a)
           \<and> length l' = length l + saves stmts"
  using assms
proof (induction stmts arbitrary: h l)
  case Nil
  then show ?case by (auto simp: saves_def)
next
  case (Cons s stmts)
  have rest: "list_all plain stmts" using Cons.prems(3) by simp
  show ?case
  proof (cases s)
    case Save
    obtain h1 r where sv: "save h a = Inr (h1, r)"
      using save_eq [OF Cons.prems(1,2)] by blast
    note f = save_state [OF Cons.prems(1,2) sv]
    obtain h' l' where ex: "exec stmts h1 a
             = Inr (h', map (\<lambda>k. int (length (l @ [VRef (length h)]) + k) + 1) [0..<saves stmts])"
      and v': "versioned h' a l'" and m': "methods_visible (h' ! a)"
      and len: "length l' = length (l @ [VRef (length h)]) + saves stmts"
      using Cons.IH [OF f(2,3) rest] by blast
    have n: "saves (Save # stmts) = Suc (saves stmts)"
      by (simp add: saves_def)
    have u: "map (\<lambda>k. int (length l + k) + 1) [0..<Suc (saves stmts)]
          = (int (length l) + 1) # map (\<lambda>k. int (length (l @ [VRef (length h)]) + k) + 1) [0..<saves stmts]"
      by (simp add: upt_conv_Cons map_Suc_upt [symmetric] del: upt_Suc)
    have "exec (Save # stmts) h a
          = Inr (h', (int (length l) + 1) # map (\<lambda>k. int (length (l @ [VRef (length h)]) + k) + 1) [0..<saves stmts])"
      using sv ex f(1) by simp
    then have "exec (s # stmts) h a
          = Inr (h', map (\<lambda>k. int (length l + k) + 1) [0..<saves (s # stmts)])"
      unfolding Save n u .
    moreover have "length l' = length l + saves (s # stmts)"
      using len n by (simp add: Save)
    ultimately show ?thesis using v' m' by blast
  next
    case (Rollback version)
    then show ?thesis using Cons.prems(3) by simp
  next
    case (Assign key val)
    then have k: "key_f key \<noteq> key_f history_key" and nm: "key \<notin> set method_names"
      using Cons.prems(3) by simp_all
    obtain h1 where st: "setitem h a key val = Inr h1"
      and v1: "versioned h1 a l" and m1: "methods_visible (h1 ! a)"
      using setitem_plain [OF Cons.prems(1,2) k nm] by blast
    have n: "saves (Assign key val # stmts) = saves stmts"
      by (simp add: saves_def)
    from Cons.IH [OF v1 m1 rest] show ?thesis
      using st by (simp add: Assign n)
  next
    case (Delete key)
    then have k: "key_f key \<noteq> key_f history_key"
      using Cons.prems(3) by simp
    obtain h1 where st: "delitem h a key = Inr h1"
      and v1: "versioned h1 a l" and m1: "methods_visible (h1 ! a)"
      using delitem_plain [OF Cons.prems(1,2) k] by blast
    have n: "saves (Delete key # stmts) = saves stmts"
      by (simp add: saves_def)
    from Cons.IH [OF v1 m1 rest] show ?thesis
      using st by (simp add: Delete n)
  qed
qed

lemma new_History_versioned:
  assumes n: "new h AspyreDictHistory old_dict = Inr (h0, a)"
    and o: "\<forall>r. old_dict = VRef r \<longrightarrow> ob_class (h ! r) \<noteq> AspyreDictHistory"
  shows "versioned h0 a [VRef a]"
proof -
  have e: "wf_dict ([] :: (string \<times> pyval) list)" by (simp add: wf_dict_def)
  show ?thesis
    using n o
    by (auto simp: new_def init_Immutable_def init_History_def deref_def Let_def
        versioned_def dict_getitem_dict_set wf_dict_update wf_dict_del wf_dict_set e
        simp del: dict_set.simps split: pyval.splits sum.splits if_splits)
qed

text \<open>
  A versioned context constructed from another versioned context takes a copy of the
  history list of the other (\<open>AspyreDictHistory.__init__\<close>, the branch for an
  \<open>old_dict\<close> of its own class).
\<close>

lemma new_History_copy:
  assumes "r < length h" and "ob_class (h ! r) = AspyreDictHistory"
    and "dict_getitem (ob_dict (h ! r)) history_key = Inr (VList l)"
  shows "\<exists>h0. new h AspyreDictHistory (VRef r) = Inr (h0, length h)
           \<and> dict_getitem (ob_dict (h0 ! length h)) history_key = Inr (VList l)"
  using assms
  by (simp add: new_def init_Immutable_def init_History_def deref_def py_list_def
      dict_getitem_dict_set del: dict_set.simps)

text \<open>
  Claim C10, for the constructions and calls on which it holds. A versioned context that has just been constructed from no
  argument, from a plain dict or from a context of another class, and that has no entry
  named after a method, holds in its history slot the list \<open>[self]\<close>, and
  \<open>get_current_version()\<close> answers 1 before any \<open>save()\<close>. Let the caller then run any
  calls of \<open>save()\<close>, with assignments and deletions between them that leave the history
  slot and the methods alone, and no \<open>rollback()\<close>. All the calls succeed; the calls of
  \<open>save()\<close> return 2, 3, ..., \<open>n + 1\<close>, where \<open>n\<close> is their number, so that the \<open>n\<close>-th
  returns \<open>n + 1\<close>; and \<open>get_current_version()\<close> then answers \<open>n + 1\<close>.
\<close>

theorem fresh_context_versions:
  assumes n: "new h AspyreDictHistory old_dict = Inr (h0, a)"
    and o: "\<forall>r. old_dict = VRef r \<longrightarrow> ob_class (h ! r) \<noteq> AspyreDictHistory"
    and m: "methods_visible (h0 ! a)"
    and p: "list_all plain stmts"
  shows "dict_getitem (ob_dict (h0 ! a)) history_key = Inr (VList [VRef a])
       \<and> get_current_version h0 a = Inr 1
       \<and> (\<exists>h' rs. exec stmts h0 a = Inr (h', rs)
             \<and> rs = map (\<lambda>k. int k + 2) [0..<saves stmts]
             \<and> get_current_version h' a = Inr (int (saves stmts) + 1))"
proof -
  note v = new_History_versioned [OF n o]
  have h: "dict_getitem (ob_dict (h0 ! a)) history_key = Inr (VList [VRef a])"
    using v by (simp add: versioned_def)
  have v0: "get_current_version h0 a = Inr 1"
    using get_current_version_list [OF v m] by simp
  obtain h' l' where st: "exec stmts h0 a
        = Inr (h', map (\<lambda>k. int (length [VRef a] + k) + 1) [0..<saves stmts])"
    and v': "versioned h' a l'" and m': "methods_visible (h' ! a)"
    and len: "length l' = length [VRef a] + saves stmts"
    using exec_plain [OF v m p] by blast
  have "get_current_version h' a = Inr (int (saves stmts) + 1)"
    using get_current_version_list [OF v' m'] len by simp
  moreover have "map (\<lambda>k. int (length [VRef a] + k) + 1) [0..<saves stmts]
                 = map (\<lambda>k. int k + 2) [0..<saves stmts]"
    by simp
  ultimately show ?thesis using h v0 st by simp
qed

theorem fresh_context_versions_witness:
  "new [] AspyreDictHistory VNone
     = Inr ([\<lparr>ob_class = AspyreDictHistory, ob_dict = [(''__history'', VList [VRef 0])]\<rparr>], 0)
   \<and> get_current_version [\<lparr>ob_class = AspyreDictHistory, ob_dict = [(''__history'', VList [VRef 0])]\<rparr>] 0 = Inr 1
   \<and> (\<exists>h'. exec [Save, Assign ''Content-Type'' (VStr ''text/html''), Save, Delete ''content-type'', Save]
              [\<lparr>ob_class = AspyreDictHistory, ob_dict = [(''__history'', VList [VRef 0])]\<rparr>] 0
              = Inr (h', [2, 3, 4])
         \<and> get_current_version h' 0 = Inr 4)"
proof -
  let ?stmts = "[Save, Assign ''Content-Type'' (VStr ''text/html''), Save, Delete ''content-type'', Save]"
  have n: "new [] AspyreDictHistory VNone
     = Inr ([\<lparr>ob_class = AspyreDictHistory, ob_dict = [(''__history'', VList [VRef 0])]\<rparr>], 0)"
    by (simp add: new_def init_Immutable_def init_History_def history_key_def)
  have m: "methods_visible ([\<lparr>ob_class = AspyreDictHistory, ob_dict = [(''__history'', VList [VRef 0])]\<rparr>] ! 0)"
    by (simp add: methods_visible_def method_hidden_def)
  have k: "key_f ''Content-Type'' \<noteq> key_f history_key" "key_f ''content-type'' \<noteq> key_f history_key"
    by code_simp+
  have p: "list_all plain ?stmts"
    by (simp add: k method_names_def)
  have s: "saves ?stmts = 3"
    by (simp add: saves_def)
  have u: "map (\<lambda>k. int k + 2) [0..<3] = [2, 3, 4]"
    by code_simp
  show ?thesis
    using fresh_context_versions [OF n _ m p] n by (simp add: s u)
qed

text \<open>
  Claim C10 without these conditions fails. A context is constructed and saved once (\<open>save()\<close> returns 2). A
  second versioned context constructed from it, \<open>AspyreDictHistory(ctx)\<close>, holds a copy
  of the history list of the first, which does not contain the new object, answers 2 to
  \<open>get_current_version()\<close> before any \<open>save()\<close> of its own, and its first \<open>save()\<close> returns
  3. And on a new context, after two calls of \<open>save()\<close> and a \<open>rollback()\<close>, the third call
  of \<open>save()\<close> returns 3, not 4.
\<close>

theorem copied_context_takes_history:
  "new [] AspyreDictHistory VNone
     = Inr ([\<lparr>ob_class = AspyreDictHistory, ob_dict = [(''__history'', VList [VRef 0])]\<rparr>], 0)
   \<and> save [\<lparr>ob_class = AspyreDictHistory, ob_dict = [(''__history'', VList [VRef 0])]\<rparr>] 0
     = Inr ([\<lparr>ob_class = AspyreDictHistory, ob_dict = [(''__history'', VList [VRef 0, VRef 1])]\<rparr>,
             \<lparr>ob_class = AspyreDictHistory, ob_dict = [(''__history'', VList [VRef 0])]\<rparr>], 2)
   \<and> new [\<lparr>ob_class = AspyreDictHistory, ob_dict = [(''__history'', VList [VRef 0, VRef 1])]\<rparr>,
           \<lparr>ob_class = AspyreDictHistory, ob_dict = [(''__history'', VList [VRef 0])]\<rparr>]
          AspyreDictHistory (VRef 0)
     = Inr ([\<lparr>ob_class = AspyreDictHistory, ob_dict = [(''__history'', VList [VRef 0, VRef 1])]\<rparr>,
             \<lparr>ob_class = AspyreDictHistory, ob_dict = [(''__history'', VList [VRef 0])]\<rparr>,
             \<lparr>ob_class = AspyreDictHistory, ob_dict = [(''__history'', VList [VRef 0, VRef 1])]\<rparr>], 2)
   \<and> get_current_version
          [\<lparr>ob_class = AspyreDictHistory, ob_dict = [(''__history'', VList [VRef 0, VRef 1])]\<rparr>,
           \<lparr>ob_class = AspyreDictHistory, ob_dict = [(''__history'', VList [VRef 0])]\<rparr>,
           \<lparr>ob_class = AspyreDictHistory, ob_dict = [(''__history'', VList [VRef 0, VRef 1])]\<rparr>] 2
     = Inr 2
   \<and> map_sum id snd
        (save [\<lparr>ob_class = AspyreDictHistory, ob_dict = [(''__history'', VList [VRef 0, VRef 1])]\<rparr>,
               \<lparr>ob_class = AspyreDictHistory, ob_dict = [(''__history'', VList [VRef 0])]\<rparr>,
               \<lparr>ob_class = AspyreDictHistory, ob_dict = [(''__history'', VList [VRef 0, VRef 1])]\<rparr>] 2)
     = Inr 3
   \<and> map_sum id snd
        (exec [Save, Save, Rollback (- 1), Save]
           [\<lparr>ob_class = AspyreDictHistory, ob_dict = [(''__history'', VList [VRef 0])]\<rparr>] 0)
     = Inr [2, 3, 3]"
  by code_simp

subsection \<open>\<open>save\<close>, then \<open>rollback\<close>\<close>

lemma rollback_after_save:
  assumes v: "versioned h a l" and m: "methods_visible (h ! a)"
    and s: "save h a = Inr (h1, n)"
  shows "\<exists>h2. rollback h1 a (- 1) = Inr h2
          \<and> length h2 = length h1
          \<and> h2 ! a = (h1 ! a)\<lparr>ob_dict := dict_set (entries (h ! a)) history_key (VList l)\<rparr>
          \<and> h2 ! length h = (h1 ! length h)\<lparr>ob_dict := entries (h ! a)\<rparr>"
proof -
  note f = save_state [OF v m s]
  let ?s = "length h"
  let ?snap = "dict_set (entries (h ! a)) history_key (VList l)"
  have a: "a < length h" and w: "wf_dict (ob_dict (h ! a))"
    using v by (simp_all add: versioned_def)
  have a1: "a < length h1" and c1: "ob_class (h1 ! a) = AspyreDictHistory"
    and l1: "dict_getitem (ob_dict (h1 ! a)) history_key = Inr (VList (l @ [VRef ?s]))"
    using f(2) by (simp_all add: versioned_def)
  have r1: "\<not> method_hidden (h1 ! a) ''rollback''"
    using f(3) by (simp add: methods_visible_def)
  have sa: "?s \<noteq> a" using a by simp
  have s1: "?s < length h1" using f(5) by simp
  have d: "dict_update [] (ob_dict (h ! a)) = ob_dict (h ! a)"
    using w by (rule dict_update_empty)
  have snap: "ob_dict (h1 ! ?s) = ?snap"
    using f(6) d by (simp add: entries_def)
  have e: "dict_update [] (entries (h ! a)) = entries (h ! a)"
    unfolding entries_def using w by (intro dict_update_empty wf_dict_del)
  have del: "dict_del ?snap history_key = entries (h ! a)"
    by (simp add: dict_del_dict_set entries_def dict_del_idem)
  have r: "rollback h1 a (- 1) =
     Inr ((h1[?s := (h1 ! ?s)\<lparr>ob_dict := entries (h ! a)\<rparr>])
            [a := (h1 ! a)\<lparr>ob_dict := ?snap\<rparr>])"
    using a1 c1 l1 r1 s1 sa
    by (simp add: rollback_def deref_def subscript_def list_getitem_last snap
        dict_getitem_dict_set set_dict_def Let_def py_list_def e del
        del: dict_set.simps)
  show ?thesis unfolding r using a1 s1 sa by simp
qed

lemma new_appends:
  "new h c v = Inr (h', r) \<Longrightarrow> \<exists>ob. h' = h @ [ob]"
  by (auto simp: new_def Let_def split: sum.splits if_splits)

lemma setitem_frame:
  assumes "setitem h a key v = Inr h'" and "b < length h" and "b \<noteq> a"
  shows "h' ! b = h ! b"
proof -
  have "setitem_AspyreDict h a key v = Inr h'"
    using assms(1) by (auto simp: setitem_def split: sum.splits klass.splits if_splits)
  then show ?thesis using assms(2,3)
    by (auto simp: setitem_AspyreDict_def set_dict_def Let_def nth_append
        dest!: new_appends split: sum.splits pyval.splits prod.splits)
qed

lemma delitem_frame:
  assumes "delitem h a key = Inr h'" and "b < length h" and "b \<noteq> a"
  shows "h' ! b = h ! b"
proof -
  have "delitem_AspyreDict h a key = Inr h'"
    using assms(1) by (auto simp: delitem_def split: sum.splits klass.splits if_splits)
  then show ?thesis using assms(2,3)
    by (auto simp: delitem_AspyreDict_def set_dict_def Let_def
        split: sum.splits prod.splits if_splits)
qed

lemma setitem_History_succeeds:
  assumes "a < length h" and "ob_class (h ! a) = AspyreDictHistory"
    and "lower key \<noteq> history_key"
  shows "\<exists>h'. setitem h a key val = Inr h'"
  using assms setitem_AspyreDict_shape [OF assms(1), of key val]
  by (auto simp: setitem_def deref_def)

text \<open>
  Claim C4, for the contexts on which it holds. Let \<open>a\<close> be a versioned context whose history slot holds a list
  \<open>l\<close> and that has no entry named after a method. \<open>save()\<close> succeeds and returns the new
  version count \<open>length l + 1\<close>, which is also what \<open>get_current_version()\<close> then answers.
  It has appended to the history a reference to a new object \<open>snap\<close>, a copy of the
  context: an object of the same class \<open>AspyreDictHistory\<close>, whose entries other than the
  history slot are those of the context, key for key and value for value, and whose own
  history slot holds a copy of the list \<open>l\<close>; the entries of the context are left as
  they were. The copy is not immutable: like every object of its class it accepts
  assignments. It is a separate object, which no assignment to and no deletion from the
  context changes. \<open>rollback()\<close> with the default version \<open>-1\<close>, called right after,
  succeeds and leaves the context with the entries other than the history slot that it
  had when \<open>save()\<close> was called, in the same order, and with the history and the version
  count it had then; it takes the history slot out of the copy and leaves the other
  entries of the copy alone.
\<close>

theorem save_then_rollback_restores:
  assumes v: "versioned h a l" and m: "methods_visible (h ! a)"
  shows "\<exists>h1 h2 snap.
           save h a = Inr (h1, int (length l) + 1)
         \<and> get_current_version h1 a = Inr (int (length l) + 1)
         \<and> dict_getitem (ob_dict (h1 ! a)) history_key = Inr (VList (l @ [VRef snap]))
         \<and> snap = length h \<and> snap < length h1 \<and> snap \<noteq> a
         \<and> ob_class (h1 ! snap) = AspyreDictHistory
         \<and> dict_getitem (ob_dict (h1 ! snap)) history_key = Inr (VList l)
         \<and> entries (h1 ! snap) = entries (h ! a)
         \<and> entries (h1 ! a) = entries (h ! a)
         \<and> (\<forall>key v. lower key \<noteq> history_key \<longrightarrow> (\<exists>h'. setitem h1 snap key v = Inr h'))
         \<and> (\<forall>key v h'. setitem h1 a key v = Inr h' \<longrightarrow> h' ! snap = h1 ! snap)
         \<and> (\<forall>key h'. delitem h1 a key = Inr h' \<longrightarrow> h' ! snap = h1 ! snap)
         \<and> rollback h1 a (- 1) = Inr h2
         \<and> entries (h2 ! a) = entries (h ! a)
         \<and> dict_getitem (ob_dict (h2 ! a)) history_key = Inr (VList l)
         \<and> get_current_version h2 a = Inr (int (length l))
         \<and> entries (h2 ! snap) = entries (h ! a)
         \<and> dict_getitem (ob_dict (h2 ! snap)) history_key = Inl KeyError"
proof -
  obtain h1 n where s: "save h a = Inr (h1, n)"
    using save_eq [OF v m] by blast
  note f = save_state [OF v m s]
  let ?s = "length h"
  obtain h2 where r: "rollback h1 a (- 1) = Inr h2"
    and len2: "length h2 = length h1"
    and d2: "h2 ! a = (h1 ! a)\<lparr>ob_dict := dict_set (entries (h ! a)) history_key (VList l)\<rparr>"
    and c2: "h2 ! ?s = (h1 ! ?s)\<lparr>ob_dict := entries (h ! a)\<rparr>"
    using rollback_after_save [OF v m s] by blast
  have a: "a < length h" and w: "wf_dict (ob_dict (h ! a))"
    using v by (simp_all add: versioned_def)
  have s1: "?s < length h1" and sa: "?s \<noteq> a" using f(5) a by simp_all
  have v1: "get_current_version h1 a = Inr (int (length l) + 1)"
    using get_current_version_list [OF f(2,3)] by simp
  have l1: "dict_getitem (ob_dict (h1 ! a)) history_key = Inr (VList (l @ [VRef ?s]))"
    using f(2) by (simp add: versioned_def)
  have cs: "ob_class (h1 ! ?s) = AspyreDictHistory"
    and ls: "dict_getitem (ob_dict (h1 ! ?s)) history_key = Inr (VList l)"
    using f(6) by (simp_all add: dict_getitem_dict_set)
  have es: "entries (h1 ! ?s) = entries (h ! a)"
    using f(6) dict_update_empty [OF w]
    by (simp add: entries_def dict_del_dict_set dict_del_idem)
  have e2: "entries (h2 ! a) = entries (h ! a)"
    using d2 by (simp add: entries_def dict_del_dict_set dict_del_idem)
  have l2: "dict_getitem (ob_dict (h2 ! a)) history_key = Inr (VList l)"
    using d2 by (simp add: dict_getitem_dict_set)
  have v2: "versioned h2 a l"
    using f(2) len2 d2 w
    by (simp add: versioned_def dict_getitem_dict_set wf_dict_set wf_dict_del entries_def)
  have m2: "methods_visible (h2 ! a)"
    using f(3,4) d2 methods_visible_entries [of "h1 ! a" "VList l"] by simp
  have g2: "get_current_version h2 a = Inr (int (length l))"
    using get_current_version_list [OF v2 m2] .
  have ws: "\<forall>key v. lower key \<noteq> history_key \<longrightarrow> (\<exists>h'. setitem h1 ?s key v = Inr h')"
    using setitem_History_succeeds [OF s1 cs] by blast
  have fs: "\<forall>key v h'. setitem h1 a key v = Inr h' \<longrightarrow> h' ! ?s = h1 ! ?s"
    using setitem_frame [OF _ s1 sa] by blast
  have fd: "\<forall>key h'. delitem h1 a key = Inr h' \<longrightarrow> h' ! ?s = h1 ! ?s"
    using delitem_frame [OF _ s1 sa] by blast
  have ec: "entries (h2 ! ?s) = entries (h ! a)"
    using c2 by (simp add: entries_def dict_del_idem)
  have lc: "dict_getitem (ob_dict (h2 ! ?s)) history_key = Inl KeyError"
    using c2 by (simp add: entries_def dict_getitem_dict_del)
  have first: "save h a = Inr (h1, int (length l) + 1)"
    using s f(1) by simp
  show ?thesis
    using first v1 l1 s1 sa cs ls es f(4) ws fs fd r e2 l2 g2 ec lc by blast
qed

theorem save_then_rollback_restores_witness:
  "\<exists>h1 h2. save [\<lparr>ob_class = AspyreDictHistory,
                   ob_dict = [(''Content-Type'', VStr ''text/html''), (''__history'', VList [VRef 0])]\<rparr>] 0
              = Inr (h1, 2)
         \<and> rollback h1 0 (- 1) = Inr h2
         \<and> entries (h2 ! 0) = [(''Content-Type'', VStr ''text/html'')]
         \<and> get_current_version h2 0 = Inr 1"
proof -
  let ?h = "[\<lparr>ob_class = AspyreDictHistory,
              ob_dict = [(''Content-Type'', VStr ''text/html''), (''__history'', VList [VRef 0])]\<rparr>]"
  have v: "versioned ?h 0 [VRef 0]"
    by (simp add: versioned_def wf_dict_def dict_getitem_def history_key_def)
  have m: "methods_visible (?h ! 0)"
    by (simp add: methods_visible_def method_hidden_def)
  have e: "entries (?h ! 0) = [(''Content-Type'', VStr ''text/html'')]"
    by (simp add: entries_def dict_del_def history_key_def)
  show ?thesis
    using save_then_rollback_restores [OF v m] e by auto
qed

text \<open>
  Claim C4 as it is stated fails in two ways. The copy that \<open>save()\<close> appends is not
  immutable: on the context \<open>AspyreDictHistory({'x': 1})\<close>, \<open>save()\<close> returns 2 and leaves the
  copy at address 1, an \<open>AspyreDictHistory\<close>; the assignment \<open>copy['x'] = 2\<close> succeeds and
  changes the copy, and \<open>rollback()\<close> on the context deletes the history slot of the copy.
  And \<open>save()\<close> does not succeed on every versioned context: after \<open>ctx['history'] = 5\<close>,
  which the guard of \<open>__setitem__\<close> lets through and which replaces the history list, it
  raises \<open>AttributeError\<close>, and after \<open>ctx['save'] = 1\<close>, which hides the method, it raises
  \<open>TypeError\<close>.
\<close>

theorem saved_copy_is_mutable:
  "new [] AspyreDictHistory (VMap [(''x'', VInt 1)])
     = Inr ([\<lparr>ob_class = AspyreDictHistory,
              ob_dict = [(''x'', VInt 1), (''__history'', VList [VRef 0])]\<rparr>], 0)
   \<and> save [\<lparr>ob_class = AspyreDictHistory,
            ob_dict = [(''x'', VInt 1), (''__history'', VList [VRef 0])]\<rparr>] 0
     = Inr ([\<lparr>ob_class = AspyreDictHistory,
              ob_dict = [(''x'', VInt 1), (''__history'', VList [VRef 0, VRef 1])]\<rparr>,
             \<lparr>ob_class = AspyreDictHistory,
              ob_dict = [(''x'', VInt 1), (''__history'', VList [VRef 0])]\<rparr>], 2)
   \<and> setitem [\<lparr>ob_class = AspyreDictHistory,
                ob_dict = [(''x'', VInt 1), (''__history'', VList [VRef 0, VRef 1])]\<rparr>,
               \<lparr>ob_class = AspyreDictHistory,
                ob_dict = [(''x'', VInt 1), (''__history'', VList [VRef 0])]\<rparr>] 1 ''x'' (VInt 2)
     = Inr [\<lparr>ob_class = AspyreDictHistory,
             ob_dict = [(''x'', VInt 1), (''__history'', VList [VRef 0, VRef 1])]\<rparr>,
            \<lparr>ob_class = AspyreDictHistory,
             ob_dict = [(''x'', VInt 2), (''__history'', VList [VRef 0])]\<rparr>]
   \<and> rollback [\<lparr>ob_class = AspyreDictHistory,
                 ob_dict = [(''x'', VInt 1), (''__history'', VList [VRef 0, VRef 1])]\<rparr>,
                \<lparr>ob_class = AspyreDictHistory,
                 ob_dict = [(''x'', VInt 1), (''__history'', VList [VRef 0])]\<rparr>] 0 (- 1)
     = Inr [\<lparr>ob_class = AspyreDictHistory,
             ob_dict = [(''x'', VInt 1), (''__history'', VList [VRef 0])]\<rparr>,
            \<lparr>ob_class = AspyreDictHistory, ob_dict = [(''x'', VInt 1)]\<rparr>]
   \<and> setitem [\<lparr>ob_class = AspyreDictHistory,
                ob_dict = [(''x'', VInt 1), (''__history'', VList [VRef 0])]\<rparr>] 0 ''history'' (VInt 5)
     = Inr [\<lparr>ob_class = AspyreDictHistory,
             ob_dict = [(''x'', VInt 1), (''__history'', VInt 5)]\<rparr>]
   \<and> save [\<lparr>ob_class = AspyreDictHistory,
            ob_dict = [(''x'', VInt 1), (''__history'', VInt 5)]\<rparr>] 0
     = Inl AttributeError
   \<and> setitem [\<lparr>ob_class = AspyreDictHistory,
                ob_dict = [(''x'', VInt 1), (''__history'', VList [VRef 0])]\<rparr>] 0 ''save'' (VInt 1)
     = Inr [\<lparr>ob_class = AspyreDictHistory,
             ob_dict = [(''x'', VInt 1), (''__history'', VList [VRef 0]), (''save'', VInt 1)]\<rparr>]
   \<and> save [\<lparr>ob_class = AspyreDictHistory,
            ob_dict = [(''x'', VInt 1), (''__history'', VList [VRef 0]), (''save'', VInt 1)]\<rparr>] 0
     = Inl TypeError"
  by code_simp

subsection \<open>Lookups\<close>

text \<open>
  Claim C9. When no key of the context has the normal form of \<open>key\<close>, the item lookup
  \<open>context[key]\<close> returns \<open>None\<close> and raises nothing. This holds for every class of
  context, so for the read-only class \<open>AspyreDictImmutable\<close> and for the mutable class
  \<open>AspyreDict\<close>.
\<close>

theorem getitem_absent_key:
  assumes "\<forall>cls_key \<in> set (map fst (ob_dict ob)). key_f cls_key \<noteq> key_f key"
  shows "getitem ob key = Inr VNone"
proof -
  have imm: "find (\<lambda>cls_key. key_f key = key_f cls_key) (map fst (ob_dict ob)) = None"
    using assms by (auto simp: find_None_iff)
  have hist: "find (\<lambda>cls_key. cls_key \<noteq> history_key \<and> key_f key = cls_key) (map fst (ob_dict ob)) = None"
  proof -
    have "\<not> (ck \<noteq> history_key \<and> key_f key = ck)" if "ck \<in> set (map fst (ob_dict ob))" for ck
    proof
      assume "ck \<noteq> history_key \<and> key_f key = ck"
      then have "key_f ck = key_f key" using key_f_idem [of key] by simp
      then show False using assms that by blast
    qed
    then show ?thesis by (simp add: find_None_iff)
  qed
  show ?thesis
    using imm hist
    by (cases "ob_class ob")
       (simp_all add: getitem_def getitem_Immutable_def find_key_def
          find_key_Immutable_def find_key_History_def)
qed

theorem getitem_absent_key_witness:
  "getitem \<lparr>ob_class = AspyreDictImmutable, ob_dict = [(''__history'', VList []), (''Content-Type'', VStr ''text/html'')]\<rparr> ''Accept'' = Inr VNone
 \<and> getitem \<lparr>ob_class = AspyreDict, ob_dict = [(''__history'', VList []), (''Content-Type'', VStr ''text/html'')]\<rparr> ''Accept'' = Inr VNone"
proof -
  have k: "key_f ''Accept'' = ''accept''" "key_f ''__history'' = ''history''"
    "key_f ''Content-Type'' = ''contenttype''"
    by code_simp+
  show ?thesis
    using getitem_absent_key [of "\<lparr>ob_class = AspyreDictImmutable, ob_dict = [(''__history'', VList []), (''Content-Type'', VStr ''text/html'')]\<rparr>" "''Accept''"]
      getitem_absent_key [of "\<lparr>ob_class = AspyreDict, ob_dict = [(''__history'', VList []), (''Content-Type'', VStr ''text/html'')]\<rparr>" "''Accept''"]
    by (simp add: k)
qed

text \<open>
  On the classes \<open>AspyreDictImmutable\<close> and \<open>AspyreDict\<close>, two keys of the same normal form
  address the same slot: \<open>__find_key__\<close> finds both or neither, and the same stored key
  for both; and what is assigned under one key of an \<open>AspyreDict\<close> is read under the
  other. (A plain dict is left out of the second statement: assignment stores a new
  context made from it.)
\<close>

lemma find_key_Immutable_same_slot:
  assumes "key_f k1 = key_f k2"
  shows "fst (find_key_Immutable d k1) = fst (find_key_Immutable d k2)
       \<and> (fst (find_key_Immutable d k1) \<longrightarrow> find_key_Immutable d k1 = find_key_Immutable d k2)"
  using assms by (simp add: find_key_Immutable_def split: option.splits)

lemma setitem_then_getitem_AspyreDict:
  assumes a: "a < length h" and c: "ob_class (h ! a) = AspyreDict"
    and k: "key_f k1 = key_f k2"
    and nm: "\<forall>m. v \<noteq> VMap m"
    and s: "setitem h a k1 v = Inr h'"
  shows "getitem (h' ! a) k2 = Inr v"
proof -
  let ?d = "ob_dict (h ! a)"
  let ?P = "\<lambda>cls_key. key_f k2 = key_f cls_key"
  let ?key = "snd (find_key_Immutable ?d k1)"
  have h': "h' = h[a := (h ! a)\<lparr>ob_dict := dict_set ?d ?key v\<rparr>]"
    using s a c nm
    by (cases v) (simp_all add: setitem_def setitem_AspyreDict_def deref_def set_dict_def Let_def)
  have at: "h' ! a = (h ! a)\<lparr>ob_dict := dict_set ?d ?key v\<rparr>"
    using a by (simp add: h')
  have "find ?P (map fst (dict_set ?d ?key v)) = Some ?key"
  proof (cases "find ?P (map fst ?d)")
    case None
    then have key: "?key = k1" by (simp add: find_key_Immutable_def k)
    have "k1 \<notin> set (map fst ?d)"
      using None k by (auto simp: find_None_iff)
    then show ?thesis
      using None by (simp add: key keys_dict_set find_append k)
  next
    case (Some ck)
    then have key: "?key = ck" by (simp add: find_key_Immutable_def k)
    have "ck \<in> set (map fst ?d)" using find_some_key [OF Some] by simp
    then show ?thesis using Some by (simp add: key keys_dict_set)
  qed
  then show ?thesis
    using c by (simp add: getitem_def getitem_Immutable_def find_key_def find_key_Immutable_def
        at dict_getitem_dict_set)
qed

text \<open>
  Claim C5, on the versioned context. \<open>'Content-Type'\<close> and \<open>'contenttype'\<close> have the
  same normal form. On a new \<open>AspyreDictHistory\<close>, \<open>context['Content-Type'] = 'text/html'\<close>
  stores the value under the key as it was given, because assignment finds its key with
  \<open>AspyreDictImmutable.__find_key__\<close>; reading \<open>context['contenttype']\<close>, and reading
  \<open>context['Content-Type']\<close> itself, returns \<open>None\<close>, because lookup finds its key with
  \<open>AspyreDictHistory.__find_key__\<close>, which compares the normal form of the argument with
  the stored key as it is.
\<close>

theorem history_key_lookup_fails:
  "new [] AspyreDictHistory VNone
     = Inr ([\<lparr>ob_class = AspyreDictHistory, ob_dict = [(''__history'', VList [VRef 0])]\<rparr>], 0)
 \<and> setitem [\<lparr>ob_class = AspyreDictHistory, ob_dict = [(''__history'', VList [VRef 0])]\<rparr>] 0
       ''Content-Type'' (VStr ''text/html'')
     = Inr [\<lparr>ob_class = AspyreDictHistory,
             ob_dict = [(''__history'', VList [VRef 0]), (''Content-Type'', VStr ''text/html'')]\<rparr>]
 \<and> key_f ''Content-Type'' = key_f ''contenttype''
 \<and> getitem \<lparr>ob_class = AspyreDictHistory,
             ob_dict = [(''__history'', VList [VRef 0]), (''Content-Type'', VStr ''text/html'')]\<rparr>
       ''contenttype'' = Inr VNone
 \<and> getitem \<lparr>ob_class = AspyreDictHistory,
             ob_dict = [(''__history'', VList [VRef 0]), (''Content-Type'', VStr ''text/html'')]\<rparr>
       ''Content-Type'' = Inr VNone"
  by code_simp

section \<open>Properties of the route registry\<close>

text \<open>
  Claim C6. The handler \<open>handler_A\<close> is registered under two templates, \<open>/users\<close> and
  \<open>/<str:name>\<close> (as \<open>Simple.add_route(A, '/users', '/<str:name>')\<close> registers them), and the
  request path \<open>users\<close> matches both. \<open>find\<close> returns two results for the handler, one for
  each template: the test \<open>cls not in handlers\<close> compares the handler with the tuples
  \<open>(cls, ret_args)\<close> of the list and never finds it.
\<close>

theorem handler_returned_twice:
  "find_Regex Map.empty [''str'' \<mapsto> Callable str_builtin]
     [((None, Some (literal ''users'')), handler_A),
      ((None, Some (one_group [] (group_name ''str'' ''name''))), handler_A)]
     None (Some ''users'')
   = Inr [(handler_A, []), (handler_A, [(''name'', ''users'')])]"
proof -
  have s: "split (group_name ''str'' ''name'') separator = [''str'', ''name'']"
    by code_simp
  show ?thesis
    by (simp add: find_Regex_def fullmatch_def literal_def one_group_def dict_update_def
        s convert_def not_in_handlers_def handler_equals_entry_def str_builtin_def)
qed

text \<open>
  Every route that \<open>add_route\<close> registers has no host pattern: a tuple with a host raises
  before the route is appended.
\<close>

lemma add_route1_no_host:
  assumes "add_route1 sub compile cls url_list u = Inr url_list'"
  shows "\<exists>p. url_list' = url_list @ [((None, p), cls)]"
  using assms
  by (auto simp: add_route1_def split: url.splits if_splits elem.splits sum.splits)

lemma add_route_no_host:
  assumes "add_route sub compile cls url_list urls = Inr url_list'"
    and "r \<in> set url_list'"
  shows "r \<in> set url_list \<or> fst (fst r) = None"
  using assms
proof (induction urls arbitrary: url_list)
  case Nil
  then show ?case by simp
next
  case (Cons u urls)
  then obtain ul where one: "add_route1 sub compile cls url_list u = Inr ul"
    and rest: "add_route sub compile cls ul urls = Inr url_list'"
    by (auto split: sum.splits)
  obtain p where ul: "ul = url_list @ [((None, p), cls)]"
    using add_route1_no_host [OF one] by blast
  from Cons.IH [OF rest Cons.prems(2)] show ?case
    by (auto simp: ul)
qed






text \<open>
  The test \<open>m1 or m2\<close> of \<open>find\<close> on an entry with both patterns, which no call of
  \<open>add_route\<close> registers: the match of the host alone puts the entry in the result.
\<close>

lemma find_host_alone:
  "find_Regex Map.empty Map.empty
     [((Some (literal ''api.example.com''), Some (literal ''users'')), handler_A)]
     (Some ''api.example.com'') (Some ''other'')
   = (Inr [(handler_A, [])] :: exn + (handler \<times> (string \<times> int) list) list)
 \<and> literal ''users'' ''other'' = None
 \<and> add_route (\<lambda>s. Inr s) (\<lambda>s. Inr (literal s)) handler_A []
       [UTuple (EStr ''api.example.com'') (EStr ''/users'')]
   = Inl TypeError"
  by (simp add: find_Regex_def fullmatch_def literal_def dict_update_def
      not_in_handlers_def add_route1_def truthy_elem_def)

text \<open>
  Claim C8. The caller's registry is empty. Whatever the interpreter's namespace of
  builtins is, as long as it binds no name \<open>date\<close> (Python's does not): a placeholder of
  the type tag \<open>date\<close>, a key of \<open>__default_types__\<close>, is not converted, and \<open>find\<close> raises
  \<open>KeyError\<close>. And when the namespace binds \<open>bool\<close> to a callable (Python's does), the tag
  \<open>bool\<close>, which is in neither the caller's registry nor \<open>__default_types__\<close>, is converted
  by that callable and \<open>find\<close> raises nothing.
\<close>

theorem default_type_tags_unused:
  assumes "builtins ''date'' = None"
    and "builtins ''bool'' = Some (Callable f)"
    and "f (Some ''2020-01-02'') = Inr v"
  shows "''date'' \<in> set default_types
       \<and> find_Regex Map.empty builtins
           [((None, Some (one_group ''on/'' (group_name ''date'' ''day''))), handler_A)]
           None (Some ''on/2020-01-02'')
         = Inl KeyError
       \<and> ''bool'' \<notin> set default_types
       \<and> find_Regex Map.empty builtins
           [((None, Some (one_group ''on/'' (group_name ''bool'' ''day''))), handler_A)]
           None (Some ''on/2020-01-02'')
         = Inr [(handler_A, [(''day'', v)])]"
proof -
  have s: "split (group_name ''date'' ''day'') separator = [''date'', ''day'']"
    "split (group_name ''bool'' ''day'') separator = [''bool'', ''day'']"
    by code_simp+
  show ?thesis
    using assms
    by (simp add: find_Regex_def fullmatch_def one_group_def dict_update_def
        s convert_def not_in_handlers_def default_types_def)
qed

theorem default_type_tags_unused_witness:
  "find_Regex Map.empty [''str'' \<mapsto> Callable (\<lambda>v. Inr False), ''bool'' \<mapsto> Callable bool_builtin]
           [((None, Some (one_group ''on/'' (group_name ''date'' ''day''))), handler_A)]
           None (Some ''on/2020-01-02'')
         = Inl KeyError
   \<and> find_Regex Map.empty [''str'' \<mapsto> Callable (\<lambda>v. Inr False), ''bool'' \<mapsto> Callable bool_builtin]
           [((None, Some (one_group ''on/'' (group_name ''bool'' ''day''))), handler_A)]
           None (Some ''on/2020-01-02'')
         = Inr [(handler_A, [(''day'', True)])]"
  using default_type_tags_unused
    [of "[''str'' \<mapsto> Callable (\<lambda>v. Inr False), ''bool'' \<mapsto> Callable bool_builtin]" bool_builtin True]
  by (simp add: bool_builtin_def)

section \<open>Properties of the dispatcher\<close>

text \<open>
  Claim C1. The handlers matched are \<open>[A, B]\<close>, both with every hook of the \<open>get\<close> family,
  and the method is \<open>get\<close>. The stage \<open>after_get\<close> of the result holds the hooks \<open>B.get\<close>
  and \<open>A.get\<close>, not \<open>B.after_get\<close> and \<open>A.after_get\<close>, so that the chain is
  \<open>A.before, B.before, A.before_get, B.before_get, A.get, B.get, B.get, A.get, B.after,
  A.after\<close>, which is not the chain of the claim. The other four stages are as the claim
  says.
\<close>

theorem after_stage_runs_method_hook:
  "find_Aspyre (\<lambda>host path. Inr [(handler_A, []), (handler_B, [])]) None (Some ''a'') ''get''
     = Inr (Some
        [(''before'', [((0, ''before''), []), ((1, ''before''), [])]),
         (''before_get'', [((0, ''before_get''), []), ((1, ''before_get''), [])]),
         (''get'', [((0, ''get''), []), ((1, ''get''), [])]),
         (''after_get'', [((1, ''get''), []), ((0, ''get''), [])]),
         (''after'', [((1, ''after''), []), ((0, ''after''), [])])])
 \<and> map fst (chain
        [(''before'', [((0, ''before''), []), ((1, ''before''), [])]),
         (''before_get'', [((0, ''before_get''), []), ((1, ''before_get''), [])]),
         (''get'', [((0, ''get''), []), ((1, ''get''), [])]),
         (''after_get'', [((1, ''get''), []), ((0, ''get''), [])]),
         (''after'', [((1, ''after''), []), ((0::nat, ''after''), [] :: (string \<times> int) list)])])
     = [(0, ''before''), (1, ''before''), (0, ''before_get''), (1, ''before_get''),
        (0, ''get''), (1, ''get''), (1, ''get''), (0, ''get''), (1, ''after''), (0, ''after'')]
 \<and> [(0, ''before''), (1, ''before''), (0, ''before_get''), (1, ''before_get''),
        (0, ''get''), (1, ''get''), (1, ''get''), (0, ''get''), (1, ''after''), (0, ''after'')]
     \<noteq> [(0::nat, ''before''), (1, ''before''), (0, ''before_get''), (1, ''before_get''),
        (0, ''get''), (1, ''get''), (1, ''after_get''), (0, ''after_get''), (1, ''after''), (0, ''after'')]"
  by (simp add: find_Aspyre_def add_handler_def empty_stages_def step_def callable_def
      getattr_def stage_append_def stage_insert0_def dict_getitem_def chain_def
      handler_A_def handler_B_def get_family_def Let_def)

text \<open>
  Whatever the hooks do, the only exception that leaves the loop of \<open>handle\<close> is
  \<open>UnboundLocalError\<close>.
\<close>

lemma run_chain_raises:
  "run_chain hooks h context in_headers input response es = Inl e \<Longrightarrow> e = UnboundLocalError"
proof (induction es arbitrary: h)
  case Nil
  then show ?case by simp
next
  case (Cons ent es)
  then show ?case
    by (auto simp: try_hook_def split: sum.splits)
qed

text \<open>
  The body of the clause \<open>except error.Error as e\<close>, which no run reaches, does what the
  claim below describes: with \<open>reraise\<close> it returns the encoded error, and without it, on
  an \<open>AspyreDict\<close> context that has the history slot only and for an error that has its
  \<open>http_code\<close> only, it stores a new context with the code and the default message under
  \<open>error\<close> and the code under \<open>http_code\<close>.
\<close>

lemma except_Error_body_reraise:
  "reraise e \<Longrightarrow> except_Error_body dict_class encode_error h context e = Inr (Inl (encode_error e))"
  by (simp add: except_Error_body_def)

lemma except_Error_body_merge:
  "except_Error_body AspyreDict encode_error
     [\<lparr>ob_class = AspyreDict, ob_dict = [(''__history'', VList [])]\<rparr>] 0
     (return_error_class 403 None None None False)
   = Inr (Inr
      [\<lparr>ob_class = AspyreDict,
         ob_dict = [(''__history'', VList []), (''error'', VRef 1), (''http_code'', VInt 403)]\<rparr>,
       \<lparr>ob_class = AspyreDict,
         ob_dict = [(''__history'', VList []), (''code'', VInt 403),
                    (''message'', VStr ''An error has occured.'')]\<rparr>])"
  by (simp add: except_Error_body_def return_error_class_def new_def init_Immutable_def
      setitem_def setitem_AspyreDict_def deref_def set_dict_def find_key_Immutable_def
      history_key_def key_f_def lower_def lower_char_def ascii_lowercase_def)

text \<open>
  Claim C2. The chain is a \<open>before\<close> hook that raises an \<open>Error\<close> of \<open>http_code\<close> 403,
  then a \<open>get\<close> hook; the codec is \<open>AspyreJSONCodec\<close>. When \<open>self.dict_class\<close> is
  \<open>AspyreDict\<close>, with \<open>reraise=False\<close> and with \<open>reraise=True\<close> alike, \<open>handle\<close> raises
  \<open>UnboundLocalError\<close>: the error is neither merged into the context, with the chain
  going on, nor encoded and returned. When the object has no attribute \<open>dict_class\<close>, as
  \<open>__init__\<close> leaves it, \<open>handle\<close> raises \<open>AttributeError\<close> before it runs a hook.
\<close>

theorem domain_error_not_handled:
  "handle (Some AspyreDict) get_class_JSON encode_JSON (\<lambda>q. VNone)
     (\<lambda>hook h context in_headers input response args.
        if hook = (0, ''before'') then Inl (Error (return_error_class 403 None None None False))
        else Inr (VNone, h))
     [] (Some [(''before'', [((0, ''before''), [])]), (''before_get'', []),
               (''get'', [((0, ''get''), [] :: (string \<times> int) list)]), (''after_get'', []), (''after'', [])])
     VNone VNone None
   = Inl UnboundLocalError
 \<and> handle (Some AspyreDict) get_class_JSON encode_JSON (\<lambda>q. VNone)
     (\<lambda>hook h context in_headers input response args.
        if hook = (0, ''before'') then Inl (Error (return_error_class 403 None None None True))
        else Inr (VNone, h))
     [] (Some [(''before'', [((0, ''before''), [])]), (''before_get'', []),
               (''get'', [((0, ''get''), [] :: (string \<times> int) list)]), (''after_get'', []), (''after'', [])])
     VNone VNone None
   = Inl UnboundLocalError
 \<and> handle None get_class_JSON encode_JSON (\<lambda>q. VNone)
     (\<lambda>hook h context in_headers input response args.
        if hook = (0, ''before'') then Inl (Error (return_error_class 403 None None None False))
        else Inr (VNone, h))
     [] (Some [(''before'', [((0, ''before''), [])]), (''before_get'', []),
               (''get'', [((0, ''get''), [] :: (string \<times> int) list)]), (''after_get'', []), (''after'', [])])
     VNone VNone None
   = Inl AttributeError"
  by (simp add: handle_def new_def init_Immutable_def setitem_def setitem_AspyreDict_def
      deref_def set_dict_def find_key_Immutable_def get_class_JSON_def init_History_def
      chain_def try_hook_def history_key_def)

text \<open>The module \<open>error\<close> binds \<open>NotImplemented\<close> to the class made for the status 501.\<close>

lemma NotImplemented_class: "map_of error_classes ''NotImplemented'' = Some 501"
proof -
  let ?bind = "\<lambda>(status_code, text) globals.
             if status_code < (300::int) then globals
             else dict_set globals (class_name text) status_code"
  have tail: "drop 36 HTTPResponses =
     [(501, ''501 Not Implemented''), (502, ''502 Bad Gateway''),
      (503, ''503 Service Unavailable''), (504, ''504 Gateway Timeout''),
      (505, ''505 HTTP Version Not Supported''), (555, ''555 Running Aspyre'')]"
    by (simp add: HTTPResponses_def)
  have names: "class_name ''501 Not Implemented'' = ''NotImplemented''"
    "class_name ''502 Bad Gateway'' = ''BadGateway''"
    "class_name ''503 Service Unavailable'' = ''ServiceUnavailable''"
    "class_name ''504 Gateway Timeout'' = ''GatewayTimeout''"
    "class_name ''505 HTTP Version Not Supported'' = ''HttpVersionNotSupported''"
    "class_name ''555 Running Aspyre'' = ''RunningAspyre''"
    by (simp_all add: class_name_def split_def isalpha_def capitalize_def upper_char_def
        lower_def lower_char_def char_of_def bit_Suc_0_iff)
  have "error_classes = fold ?bind (take 36 HTTPResponses @ drop 36 HTTPResponses) []"
    by (simp add: error_classes_def)
  also have "\<dots> = fold ?bind (drop 36 HTTPResponses) (fold ?bind (take 36 HTTPResponses) [])"
    by (simp only: fold_append comp_apply)
  finally have ec: "error_classes
      = fold ?bind (drop 36 HTTPResponses) (fold ?bind (take 36 HTTPResponses) [])" .
  show ?thesis
    unfolding ec tail
    by (simp add: names map_of_dict_set_same map_of_dict_set_other)
qed

text \<open>
  What \<open>__call__\<close> does, for every method: the error of status 501 for a method that is
  not in \<open>Methods['http_methods']\<close>, and \<open>TypeError\<close> for one that is.
\<close>

lemma call_unsupported_method:
  "method \<notin> set http_methods \<Longrightarrow>
   call url_class_find host path method input headers query_string
     = Inl (Error \<lparr>http_code = 501, error_code = None,
                   message = Some ''The server does not support this HTTP method.'',
                   short_name = None, reraise = False\<rparr>)"
  by (simp add: call_def raise_error_def NotImplemented_class return_error_class_def)

lemma call_supported_method:
  "method \<in> set http_methods \<Longrightarrow>
   call url_class_find host path method input headers query_string = Inl TypeError"
  by (simp add: call_def truthy_coroutine_def)

text \<open>
  Claim C3. No route is registered. The method \<open>options\<close> fails with the error of
  \<open>http_code\<close> 501, as the claim says. The method \<open>head\<close> fails with the same error and
  not with the error of \<open>http_code\<close> 404: it is not in \<open>Methods['http_methods']\<close>, and
  \<open>__fix_params__\<close>, which would turn it into \<open>get\<close>, is not called. The method \<open>get\<close>
  fails with \<open>TypeError\<close> and not with the error of \<open>http_code\<close> 404: \<open>handlers\<close> is a
  coroutine object, which is truthy, and the call of \<open>self.handle\<close> lacks an argument.
\<close>

theorem dispatch_head_and_unmatched:
  "(call (\<lambda>host path. Inr []) None (Some ''no/such/route'') ''options'' VNone VNone None :: exn + string)
     = Inl (Error \<lparr>http_code = 501, error_code = None,
                   message = Some ''The server does not support this HTTP method.'',
                   short_name = None, reraise = False\<rparr>)
 \<and> (call (\<lambda>host path. Inr []) None (Some ''no/such/route'') ''head'' VNone VNone None :: exn + string)
     = Inl (Error \<lparr>http_code = 501, error_code = None,
                   message = Some ''The server does not support this HTTP method.'',
                   short_name = None, reraise = False\<rparr>)
 \<and> fix_params_method ''head'' = (True, Some ''get'')
 \<and> (call (\<lambda>host path. Inr []) None (Some ''no/such/route'') ''get'' VNone VNone None :: exn + string)
     = Inl TypeError"
  by (simp add: call_def http_methods_def raise_error_def NotImplemented_class
      return_error_class_def truthy_coroutine_def fix_params_method_def)

end
